theory Spec2Isabelle
  imports Complex_Main "HOL-Library.Log_Nat"
begin

section \<open>Conventions of the embedding\<close>

text \<open>
  The development embeds the scoring code of \<^verbatim>\<open>battle.py\<close>, the cache and client of
  \<^verbatim>\<open>pokeapi.py\<close> and the two services of \<^verbatim>\<open>services.py\<close>.

  \<^item> Python \<^verbatim>\<open>int\<close> is \<^typ>\<open>int\<close>.
  \<^item> Python \<^verbatim>\<open>float\<close> is binary64. A float is the rational number it denotes, and every
    operation returns the exact result rounded to the nearest number with a significand of
    53 bits, a tie going to the even significand (\<open>fl\<close> below). The exponent range is not
    bounded: infinities, NaN and subnormal numbers, which need magnitudes beyond what an
    integer column stores, are not modelled.
  \<^item> Python \<^verbatim>\<open>str\<close> is the list of its Unicode code points, as integers. \<^verbatim>\<open>str.strip\<close> is
    modelled in full; \<^verbatim>\<open>str.lower\<close>, whose table belongs to the language's runtime, is a parameter.
  \<^item> A raised exception is a value \<open>Inl e\<close> of a sum type.
  \<^item> The multi-line trace \<^verbatim>\<open>battle_log\<close> is a formatted rendering of values that the model
    computes anyway; it is left out of the result records.
  \<^item> The HTTP client, the schema library and the database are not part of the repository.
    The first answers each request with a transport failure (\<^verbatim>\<open>httpx.RequestError\<close>) or a
    response; the second is a parameter; the third is the two tables as lists, with the
    unique columns of \<^verbatim>\<open>models.py\<close> checked at insertion. Every statement sent to the
    database and every request sent to the external source is recorded in a log. Commit and
    rollback belong to the session dependency of \<^verbatim>\<open>database.py\<close>, outside the services,
    and are not modelled.
\<close>

section \<open>Strings\<close>

type_synonym str = "int list"

text \<open>A literal of the program text, all of whose characters are ASCII.\<close>

definition ascii :: "string \<Rightarrow> str" where
  "ascii s = map of_char s"

text \<open>The exception classes of \<^verbatim>\<open>exceptions.py\<close>: each constructor carries the argument of the
  class's constructor.\<close>

datatype pokemon_battle_error =
    PokemonNotFoundError str
  | PokeAPIError str
  | SamePokemonError str
  | DatabaseError str

text \<open>Everything the modelled code can raise: the domain errors above, and the exceptions of
  the language and of the libraries that the code lets through.\<close>

datatype exn =
    PokemonBattleError pokemon_battle_error
  | ZeroDivisionError
  | KeyError str
  | TypeError
  | AttributeError
  | ValidationError
  | JSONDecodeError
  | MultipleResultsFound
  | IntegrityError

text \<open>Sequencing of two steps of which the first may raise.\<close>

definition and_then :: "exn + 'a \<Rightarrow> ('a \<Rightarrow> exn + 'b) \<Rightarrow> exn + 'b" where
  "and_then r f = (case r of Inl e \<Rightarrow> Inl e | Inr x \<Rightarrow> f x)"

text \<open>The code points that \<^verbatim>\<open>str.strip()\<close> removes, those for which \<^verbatim>\<open>str.isspace\<close> holds:
  U+0009 to U+000D, U+001C to U+0020, U+0085, U+00A0, U+1680, U+2000 to U+200A, U+2028,
  U+2029, U+202F, U+205F and U+3000.\<close>

definition is_space :: "int \<Rightarrow> bool" where
  "is_space c =
     ((0x9 \<le> c \<and> c \<le> 0xD) \<or> (0x1C \<le> c \<and> c \<le> 0x20) \<or> c = 0x85 \<or> c = 0xA0 \<or> c = 0x1680
      \<or> (0x2000 \<le> c \<and> c \<le> 0x200A) \<or> c = 0x2028 \<or> c = 0x2029 \<or> c = 0x202F \<or> c = 0x205F
      \<or> c = 0x3000)"

text \<open>\<^verbatim>\<open>s.strip()\<close>\<close>

definition strip :: "str \<Rightarrow> str" where
  "strip s = rev (dropWhile is_space (rev (dropWhile is_space s)))"

text \<open>\<^verbatim>\<open>s.split(sep)\<close> for a one-character separator: never an empty list, \<^verbatim>\<open>"".split(",")\<close>
  is \<^verbatim>\<open>[""]\<close>.\<close>

fun str_split :: "int \<Rightarrow> str \<Rightarrow> str list" where
  "str_split sep [] = [[]]"
| "str_split sep (c # cs) =
     (if c = sep then [] # str_split sep cs
      else (case str_split sep cs of
              [] \<Rightarrow> [[c]]
            | x # xs \<Rightarrow> (c # x) # xs))"

text \<open>\<^verbatim>\<open>d.get(key, default)\<close> on a dictionary literal given as its list of items\<close>

definition dict_get :: "('k \<times> 'v) list \<Rightarrow> 'k \<Rightarrow> 'v \<Rightarrow> 'v" where
  "dict_get d key dflt = (case map_of d key of None \<Rightarrow> dflt | Some v \<Rightarrow> v)"

section \<open>Floats\<close>

type_synonym pyfloat = rat

text \<open>The nearest integer, a tie to the even one.\<close>

definition round_half_even :: "rat \<Rightarrow> int" where
  "round_half_even x =
     (let f = \<lfloor>x\<rfloor>; r = x - of_int f
      in if r < 1/2 then f else if 1/2 < r then f + 1 else if even f then f else f + 1)"

text \<open>The binary exponent of a non-zero rational: the \<open>e\<close> with \<open>2 ^ e \<le> |x| < 2 ^ (e + 1)\<close>,
  found from the bit lengths of numerator and denominator.\<close>

definition exponent_of :: "rat \<Rightarrow> int" where
  "exponent_of x =
     (let (p, q) = quotient_of \<bar>x\<bar>; d = bitlen p - bitlen q
      in if 2 powi d \<le> \<bar>x\<bar> then d else d - 1)"

text \<open>Rounding to binary64: to the nearest multiple of the unit in the last place of the
  53-bit significand.\<close>

definition fl :: "rat \<Rightarrow> pyfloat" where
  "fl x = (if x = 0 then 0
           else (let ulp = 2 powi (exponent_of x - 52)
                 in of_int (round_half_even (x / ulp)) * ulp))"

text \<open>The arithmetic of floats, the conversion of an int that meets a float, and \<^verbatim>\<open>a / b\<close> on
  two ints, which rounds the exact quotient once.\<close>

definition fadd :: "pyfloat \<Rightarrow> pyfloat \<Rightarrow> pyfloat" where
  "fadd a b = fl (a + b)"

definition fsub :: "pyfloat \<Rightarrow> pyfloat \<Rightarrow> pyfloat" where
  "fsub a b = fl (a - b)"

definition fmul :: "pyfloat \<Rightarrow> pyfloat \<Rightarrow> pyfloat" where
  "fmul a b = fl (a * b)"

definition fdiv :: "pyfloat \<Rightarrow> pyfloat \<Rightarrow> pyfloat" where
  "fdiv a b = fl (a / b)"

definition float_of_int :: "int \<Rightarrow> pyfloat" where
  "float_of_int n = fl (of_int n)"

definition py_truediv :: "int \<Rightarrow> int \<Rightarrow> exn + pyfloat" where
  "py_truediv a b = (if b = 0 then Inl ZeroDivisionError else Inr (fl (of_int a / of_int b)))"

text \<open>The literals \<^verbatim>\<open>0.3\<close>, \<^verbatim>\<open>0.2\<close> and \<^verbatim>\<open>0.01\<close>; \<^verbatim>\<open>0.5\<close>, \<^verbatim>\<open>1.0\<close> and \<^verbatim>\<open>2.0\<close> are exact.\<close>

definition lit_0_3 :: pyfloat where
  "lit_0_3 = fl (3 / 10)"

definition lit_0_2 :: pyfloat where
  "lit_0_2 = fl (2 / 10)"

definition lit_0_01 :: pyfloat where
  "lit_0_01 = fl (1 / 100)"

text \<open>\<^verbatim>\<open>round(x, ndigits)\<close>: the float nearest to the decimal with \<^verbatim>\<open>ndigits\<close> places that is
  nearest to the exact value of \<^verbatim>\<open>x\<close>, a tie to the even decimal.\<close>

definition py_round :: "pyfloat \<Rightarrow> nat \<Rightarrow> pyfloat" where
  "py_round x ndigits = fl (of_int (round_half_even (x * 10 ^ ndigits)) / 10 ^ ndigits)"

section \<open>The type chart and the battle algorithm (battle.py)\<close>

text \<open>One item of the chart: the attacking label and its inner dict. The multipliers are
  the literals \<^verbatim>\<open>0.5\<close>, \<^verbatim>\<open>0\<close> and \<^verbatim>\<open>2\<close>.\<close>

definition chart_row :: "string \<Rightarrow> (string \<times> pyfloat) list \<Rightarrow> str \<times> (str \<times> pyfloat) list" where
  "chart_row atk row = (ascii atk, map (\<lambda>(dfn, m). (ascii dfn, m)) row)"

definition TYPE_CHART :: "(str \<times> (str \<times> pyfloat) list) list" where
  "TYPE_CHART = [
    chart_row ''normal'' [(''rock'', 1/2), (''ghost'', 0), (''steel'', 1/2)],
    chart_row ''fire'' [(''fire'', 1/2), (''water'', 1/2), (''grass'', 2), (''ice'', 2), (''bug'', 2),
                (''rock'', 1/2), (''dragon'', 1/2), (''steel'', 2)],
    chart_row ''water'' [(''fire'', 2), (''water'', 1/2), (''grass'', 1/2), (''ground'', 2), (''rock'', 2),
                 (''dragon'', 1/2)],
    chart_row ''electric'' [(''water'', 2), (''electric'', 1/2), (''grass'', 1/2), (''ground'', 0),
                    (''flying'', 2), (''dragon'', 1/2)],
    chart_row ''grass'' [(''fire'', 1/2), (''water'', 2), (''grass'', 1/2), (''poison'', 1/2),
                 (''ground'', 2), (''flying'', 1/2), (''bug'', 1/2), (''rock'', 2),
                 (''dragon'', 1/2), (''steel'', 1/2)],
    chart_row ''ice'' [(''fire'', 1/2), (''water'', 1/2), (''grass'', 2), (''ice'', 1/2), (''ground'', 2),
               (''flying'', 2), (''dragon'', 2), (''steel'', 1/2)],
    chart_row ''fighting'' [(''normal'', 2), (''ice'', 2), (''poison'', 1/2), (''flying'', 1/2),
                    (''psychic'', 1/2), (''bug'', 1/2), (''rock'', 2), (''ghost'', 0),
                    (''dark'', 2), (''steel'', 2), (''fairy'', 1/2)],
    chart_row ''poison'' [(''grass'', 2), (''poison'', 1/2), (''ground'', 1/2), (''rock'', 1/2),
                  (''ghost'', 1/2), (''steel'', 0), (''fairy'', 2)],
    chart_row ''ground'' [(''fire'', 2), (''electric'', 2), (''grass'', 1/2), (''poison'', 2),
                  (''flying'', 0), (''bug'', 1/2), (''rock'', 2), (''steel'', 2)],
    chart_row ''flying'' [(''electric'', 1/2), (''grass'', 2), (''fighting'', 2), (''bug'', 2),
                  (''rock'', 1/2), (''steel'', 1/2)],
    chart_row ''psychic'' [(''fighting'', 2), (''poison'', 2), (''psychic'', 1/2), (''dark'', 0),
                   (''steel'', 1/2)],
    chart_row ''bug'' [(''fire'', 1/2), (''grass'', 2), (''fighting'', 1/2), (''poison'', 1/2),
               (''flying'', 1/2), (''psychic'', 2), (''ghost'', 1/2), (''dark'', 2),
               (''steel'', 1/2), (''fairy'', 1/2)],
    chart_row ''rock'' [(''fire'', 2), (''ice'', 2), (''fighting'', 1/2), (''ground'', 1/2),
                (''flying'', 2), (''bug'', 2), (''steel'', 1/2)],
    chart_row ''ghost'' [(''normal'', 0), (''psychic'', 2), (''ghost'', 2), (''dark'', 1/2)],
    chart_row ''dragon'' [(''dragon'', 2), (''steel'', 1/2), (''fairy'', 0)],
    chart_row ''dark'' [(''fighting'', 1/2), (''psychic'', 2), (''ghost'', 2), (''dark'', 1/2),
                (''fairy'', 1/2)],
    chart_row ''steel'' [(''fire'', 1/2), (''water'', 1/2), (''electric'', 1/2), (''ice'', 2),
                 (''rock'', 2), (''steel'', 1/2), (''fairy'', 2)],
    chart_row ''fairy'' [(''fire'', 1/2), (''fighting'', 2), (''poison'', 1/2), (''dragon'', 2),
                 (''dark'', 2), (''steel'', 1/2)]]"

text \<open>The 18 labels: the keys of the chart.\<close>

definition known_types :: "str list" where
  "known_types = map fst TYPE_CHART"

text \<open>The two nested loops of \<^verbatim>\<open>get_type_effectiveness\<close>, the accumulator \<^verbatim>\<open>multiplier\<close>
  threaded through both.\<close>

definition get_type_effectiveness :: "str list \<Rightarrow> str list \<Rightarrow> pyfloat" where
  "get_type_effectiveness attacker_types defender_types =
     fold (\<lambda>atk_type multiplier.
             let atk_chart = dict_get TYPE_CHART atk_type [] in
               fold (\<lambda>def_type multiplier.
                       let type_mult = dict_get atk_chart def_type 1
                       in fmul multiplier type_mult)
                    defender_types multiplier)
          attacker_types 1"

record pokemon_create =
  pokeapi_id :: int
  name :: str
  hp :: int
  attack :: int
  defense :: int
  special_attack :: int
  special_defense :: int
  speed :: int
  types :: str
  sprite_url :: "str option"

text \<open>The table row \<^verbatim>\<open>Pokemon\<close> has the columns of \<^verbatim>\<open>PokemonCreate\<close> and the primary key
  \<^verbatim>\<open>id\<close> (here \<open>pk_id\<close>); the two timestamps are left out.\<close>

record pokemon = pokemon_create +
  pk_id :: int

record battle_result =
  winner :: "pokemon option"
  pokemon1_score :: pyfloat
  pokemon2_score :: pyfloat
  is_draw :: bool

definition calculate_base_power :: "pokemon \<Rightarrow> pyfloat" where
  "calculate_base_power pokemon =
     (let offensive = fl (of_int (attack pokemon + special_attack pokemon) / 2);
          defensive = fl (of_int (defense pokemon + special_defense pokemon) / 2);
          power = fdiv (fadd (fadd (fadd (fmul (float_of_int (hp pokemon)) (1/2)) offensive)
                                   defensive)
                             (float_of_int (speed pokemon)))
                       4
      in power)"

text \<open>The score of \<^verbatim>\<open>calculate_battle_score\<close>; the second component of the source's result,
  the list of trace lines, is left out.\<close>

definition calculate_battle_score ::
    "pokemon \<Rightarrow> pokemon \<Rightarrow> str list \<Rightarrow> str list \<Rightarrow> exn + pyfloat" where
  "calculate_battle_score attacker defender attacker_types defender_types =
     (let base_power = calculate_base_power attacker;
          type_effectiveness = get_type_effectiveness attacker_types defender_types;
          type_bonus = fmul (fmul type_effectiveness base_power) lit_0_3
      in and_then (py_truediv (speed attacker) (max (speed defender) 1)) (\<lambda>speed_ratio.
         let speed_bonus = fmul (fmul (min speed_ratio 2) base_power) lit_0_2;
             score = fadd (fadd (fmul base_power (1/2)) type_bonus) speed_bonus
         in Inr score))"

text \<open>The comprehension \<^verbatim>\<open>[t.strip() for t in s.split(",") if t.strip()]\<close> that
  \<^verbatim>\<open>execute_battle\<close> applies to the \<^verbatim>\<open>types\<close> column of both participants; 44 is the comma.\<close>

definition parse_types :: "str \<Rightarrow> str list" where
  "parse_types s = [strip t. t \<leftarrow> str_split 44 s, strip t \<noteq> []]"

definition execute_battle :: "pokemon \<Rightarrow> pokemon \<Rightarrow> exn + battle_result" where
  "execute_battle pokemon1 pokemon2 =
     (let p1_types = parse_types (types pokemon1);
          p2_types = parse_types (types pokemon2)
      in and_then (calculate_battle_score pokemon1 pokemon2 p1_types p2_types) (\<lambda>score1.
         and_then (calculate_battle_score pokemon2 pokemon1 p2_types p1_types) (\<lambda>score2.
         let score_diff = \<bar>fsub score1 score2\<bar>;
             avg_score = fdiv (fadd score1 score2) 2;
             is_draw = (if avg_score > 0 then score_diff < fmul avg_score lit_0_01
                        else score1 = score2);
             winner = (if is_draw then None
                       else if score1 > score2 then Some pokemon1
                       else Some pokemon2)
         in Inr \<lparr>winner = winner,
                  pokemon1_score = py_round score1 2,
                  pokemon2_score = py_round score2 2,
                  is_draw = is_draw\<rparr>)))"

section \<open>The error classes (exceptions.py)\<close>

text \<open>39 is the apostrophe.\<close>

fun message :: "pokemon_battle_error \<Rightarrow> str" where
  "message (PokemonNotFoundError pokemon_name) =
     ascii ''Pokemon '' @ [39] @ pokemon_name @ [39] @ ascii '' not found''"
| "message (PokeAPIError msg) = ascii ''PokeAPI error: '' @ msg"
| "message (SamePokemonError pokemon_name) =
     ascii ''Cannot battle '' @ [39] @ pokemon_name @ [39] @ ascii '' against itself''"
| "message (DatabaseError msg) = ascii ''Database error: '' @ msg"

fun error_code :: "pokemon_battle_error \<Rightarrow> str" where
  "error_code (PokemonNotFoundError pokemon_name) = ascii ''POKEMON_NOT_FOUND''"
| "error_code (PokeAPIError msg) = ascii ''POKEAPI_ERROR''"
| "error_code (SamePokemonError pokemon_name) = ascii ''SAME_POKEMON''"
| "error_code (DatabaseError msg) = ascii ''DATABASE_ERROR''"

section \<open>Payloads of the external source\<close>

text \<open>A decoded JSON document, as \<^verbatim>\<open>response.json()\<close> returns it. An object is the list of
  the items of the resulting \<^verbatim>\<open>dict\<close> (keys distinct).\<close>

datatype json =
    JNull
  | JBool bool
  | JInt int
  | JFloat rat
  | JStr str
  | JArr "json list"
  | JObj "(str \<times> json) list"

text \<open>\<^verbatim>\<open>x[key]\<close> with a string key: only a dict can be subscripted by a string.\<close>

fun py_getitem :: "json \<Rightarrow> str \<Rightarrow> exn + json" where
  "py_getitem (JObj items) key =
     (case map_of items key of None \<Rightarrow> Inl (KeyError key) | Some v \<Rightarrow> Inr v)"
| "py_getitem _ key = Inl TypeError"

text \<open>\<^verbatim>\<open>x.get(key)\<close>: a method of dicts only.\<close>

fun py_get :: "json \<Rightarrow> str \<Rightarrow> exn + json" where
  "py_get (JObj items) key = Inr (case map_of items key of None \<Rightarrow> JNull | Some v \<Rightarrow> v)"
| "py_get _ key = Inl AttributeError"

text \<open>\<^verbatim>\<open>for y in x\<close>: a list gives its elements, a dict its keys, a string its characters.\<close>

fun py_iter :: "json \<Rightarrow> exn + json list" where
  "py_iter (JArr xs) = Inr xs"
| "py_iter (JObj items) = Inr (map (\<lambda>(k, v). JStr k) items)"
| "py_iter (JStr s) = Inr (map (\<lambda>c. JStr [c]) s)"
| "py_iter _ = Inl TypeError"

text \<open>The truth value that \<^verbatim>\<open>if sprites := ...\<close> tests.\<close>

fun truthy :: "json \<Rightarrow> bool" where
  "truthy JNull = False"
| "truthy (JBool b) = b"
| "truthy (JInt n) = (n \<noteq> 0)"
| "truthy (JFloat x) = (x \<noteq> 0)"
| "truthy (JStr s) = (s \<noteq> [])"
| "truthy (JArr xs) = (xs \<noteq> [])"
| "truthy (JObj items) = (items \<noteq> [])"

text \<open>A list or a dict cannot be the key of a dict.\<close>

fun hashable :: "json \<Rightarrow> bool" where
  "hashable (JArr xs) = False"
| "hashable (JObj items) = False"
| "hashable _ = True"

text \<open>Running a comprehension: the elements in order, stopping at the first that raises.\<close>

fun map_exn :: "('a \<Rightarrow> exn + 'b) \<Rightarrow> 'a list \<Rightarrow> exn + 'b list" where
  "map_exn f [] = Inr []"
| "map_exn f (x # xs) = and_then (f x) (\<lambda>y. and_then (map_exn f xs) (\<lambda>ys. Inr (y # ys)))"

text \<open>\<^verbatim>\<open>sep.join(xs)\<close>: every element has to be a string.\<close>

fun join :: "str \<Rightarrow> str list \<Rightarrow> str" where
  "join sep [] = []"
| "join sep [x] = x"
| "join sep (x # y # ys) = x @ sep @ join sep (y # ys)"

fun as_str :: "json \<Rightarrow> exn + str" where
  "as_str (JStr s) = Inr s"
| "as_str _ = Inl TypeError"

text \<open>The validation that constructing a \<^verbatim>\<open>PokemonCreate\<close> runs on its fields belongs to the
  schema library, which is not part of the repository. It is a parameter of the model: one
  validator for the \<^verbatim>\<open>int\<close> fields, one for the \<^verbatim>\<open>str\<close> fields and one for the
  \<^verbatim>\<open>str | None\<close> field, each returning \<open>None\<close> where the library rejects the value.\<close>

record validators =
  valid_int :: "json \<Rightarrow> int option"
  valid_str :: "json \<Rightarrow> str option"
  valid_opt_str :: "json \<Rightarrow> str option option"

text \<open>What the HTTP client gives for one request: a transport failure
  (\<^verbatim>\<open>httpx.RequestError\<close>, with its text), or a response with its status code and, where the
  body is a JSON document, the decoded body.\<close>

datatype http_result =
    RequestError str
  | Response nat "json option"

text \<open>The world outside the process: the answer of the external source for each requested
  name, the successive readings of \<^verbatim>\<open>time.time()\<close>, the schema library's validators, and
  \<^verbatim>\<open>str.lower\<close> of the language's runtime.\<close>

record env =
  http_get :: "str \<Rightarrow> http_result"
  clock :: "nat \<Rightarrow> pyfloat"
  schema :: validators
  str_lower :: "str \<Rightarrow> str"

section \<open>The cache and the client (pokeapi.py)\<close>

record cache_entry =
  data :: json
  expires_at :: pyfloat

text \<open>\<^verbatim>\<open>PokemonCache\<close>: the dict \<^verbatim>\<open>_cache\<close> (here \<open>entries\<close>) and \<^verbatim>\<open>ttl\<close>.\<close>

record pokemon_cache =
  entries :: "str \<rightharpoonup> cache_entry"
  ttl :: int

text \<open>The row of the table \<^verbatim>\<open>Battle\<close> (\<^verbatim>\<open>models.py\<close>) with its three relationships, which the
  service fills in after the insertion; the timestamp is left out. The fields that share a
  name with a field of \<^verbatim>\<open>BattleResult\<close> carry the suffix \<open>_b\<close>, and \<^verbatim>\<open>id\<close> is \<open>battle_id\<close>.\<close>

record battle =
  battle_id :: int
  pokemon1_id :: int
  pokemon2_id :: int
  winner_id :: "int option"
  pokemon1_score_b :: pyfloat
  pokemon2_score_b :: pyfloat
  pokemon1_b :: "pokemon option"
  pokemon2_b :: "pokemon option"
  winner_b :: "pokemon option"

text \<open>What leaves the process: a query of the pokemon table by name, the insertion of a row
  into either table, a request to the external source for a name.\<close>

datatype effect =
    SelectPokemon str
  | InsertPokemon
  | InsertBattle
  | HttpGet str

text \<open>The mutable state: the two tables with their key sequences, the process-wide cache,
  the number of clock readings taken so far, and the log of the effects so far.\<close>

record world =
  db_pokemon :: "pokemon list"
  pokemon_seq :: int
  db_battles :: "battle list"
  battle_seq :: int
  cache :: pokemon_cache
  ticks :: nat
  effects :: "effect list"

definition record_effect :: "effect \<Rightarrow> world \<Rightarrow> world" where
  "record_effect x w = w\<lparr>effects := effects w @ [x]\<rparr>"

definition time_time :: "env \<Rightarrow> world \<Rightarrow> pyfloat \<times> world" where
  "time_time e w = (clock e (ticks w), w\<lparr>ticks := Suc (ticks w)\<rparr>)"

text \<open>\<^verbatim>\<open>PokemonCache.get\<close>: the clock is read only when the key has an entry. The method
  returns the stored document or Python's \<^verbatim>\<open>None\<close>, which is \<open>JNull\<close> here, as it is when a
  document is the JSON \<^verbatim>\<open>null\<close>.\<close>

definition cache_get :: "env \<Rightarrow> str \<Rightarrow> world \<Rightarrow> json \<times> world" where
  "cache_get e key w =
     (case entries (cache w) key of
        None \<Rightarrow> (JNull, w)
      | Some entry \<Rightarrow>
          (let (now, w1) = time_time e w
           in if now > expires_at entry
              then (JNull, w1\<lparr>cache := (cache w1)\<lparr>entries := (entries (cache w1))(key := None)\<rparr>\<rparr>)
              else (data entry, w1)))"

text \<open>\<^verbatim>\<open>PokemonCache.set\<close>: the sum of the clock reading, a float, and \<^verbatim>\<open>ttl\<close>, an int.\<close>

definition cache_set :: "env \<Rightarrow> str \<Rightarrow> json \<Rightarrow> world \<Rightarrow> world" where
  "cache_set e key v w =
     (let (now, w1) = time_time e w;
          entry = \<lparr>data = v, expires_at = fadd now (float_of_int (ttl (cache w1)))\<rparr>
      in w1\<lparr>cache := (cache w1)\<lparr>entries := (entries (cache w1))(key \<mapsto> entry)\<rparr>\<rparr>)"

text \<open>\<^verbatim>\<open>PokemonCache.clear\<close>\<close>

definition cache_clear :: "world \<Rightarrow> world" where
  "cache_clear w = w\<lparr>cache := (cache w)\<lparr>entries := Map.empty\<rparr>\<rparr>"

text \<open>One step of the dict comprehension that builds \<^verbatim>\<open>stats\<close>: the key expression, then the
  value expression, then the insertion, which needs a hashable key.\<close>

definition stats_item :: "json \<Rightarrow> exn + (json \<times> json)" where
  "stats_item stat =
     and_then (py_getitem stat (ascii ''stat'')) (\<lambda>st.
     and_then (py_getitem st (ascii ''name'')) (\<lambda>k.
     and_then (py_getitem stat (ascii ''base_stat'')) (\<lambda>v.
     if hashable k then Inr (k, v) else Inl TypeError)))"

text \<open>\<^verbatim>\<open>stats.get(key, 0)\<close> on the dict built from the items in order: a later item with the
  same key has replaced an earlier one.\<close>

definition stats_get :: "(json \<times> json) list \<Rightarrow> str \<Rightarrow> json" where
  "stats_get stats key = dict_get (rev stats) (JStr key) (JInt 0)"

definition type_item :: "json \<Rightarrow> exn + json" where
  "type_item t = and_then (py_getitem t (ascii ''type'')) (\<lambda>ty. py_getitem ty (ascii ''name''))"

definition validated :: "'a option \<Rightarrow> exn + 'a" where
  "validated r = (case r of None \<Rightarrow> Inl ValidationError | Some x \<Rightarrow> Inr x)"

text \<open>The constructor call \<^verbatim>\<open>PokemonCreate(...)\<close>: the record, if every field validates.\<close>

definition PokemonCreate ::
    "validators \<Rightarrow> json \<Rightarrow> json \<Rightarrow> json \<Rightarrow> json \<Rightarrow> json \<Rightarrow> json \<Rightarrow> json \<Rightarrow> json \<Rightarrow> json \<Rightarrow> json
       \<Rightarrow> exn + pokemon_create" where
  "PokemonCreate vs a_pokeapi_id a_name a_hp a_attack a_defense a_special_attack
       a_special_defense a_speed a_types a_sprite_url =
     and_then (validated (valid_int vs a_pokeapi_id)) (\<lambda>v_pokeapi_id.
     and_then (validated (valid_str vs a_name)) (\<lambda>v_name.
     and_then (validated (valid_int vs a_hp)) (\<lambda>v_hp.
     and_then (validated (valid_int vs a_attack)) (\<lambda>v_attack.
     and_then (validated (valid_int vs a_defense)) (\<lambda>v_defense.
     and_then (validated (valid_int vs a_special_attack)) (\<lambda>v_special_attack.
     and_then (validated (valid_int vs a_special_defense)) (\<lambda>v_special_defense.
     and_then (validated (valid_int vs a_speed)) (\<lambda>v_speed.
     and_then (validated (valid_str vs a_types)) (\<lambda>v_types.
     and_then (validated (valid_opt_str vs a_sprite_url)) (\<lambda>v_sprite_url.
     Inr \<lparr>pokeapi_id = v_pokeapi_id, name = v_name, hp = v_hp, attack = v_attack,
          defense = v_defense, special_attack = v_special_attack,
          special_defense = v_special_defense, speed = v_speed, types = v_types,
          sprite_url = v_sprite_url\<rparr>))))))))))"

text \<open>\<^verbatim>\<open>PokeAPIClient._parse_pokemon_data\<close>, in the source's order of evaluation; 44 is the
  comma.\<close>

definition parse_pokemon_data :: "validators \<Rightarrow> json \<Rightarrow> exn + pokemon_create" where
  "parse_pokemon_data vs dat =
     and_then (py_getitem dat (ascii ''stats'')) (\<lambda>stats_json.
     and_then (py_iter stats_json) (\<lambda>stat_list.
     and_then (map_exn stats_item stat_list) (\<lambda>stats.
     and_then (py_getitem dat (ascii ''types'')) (\<lambda>types_json.
     and_then (py_iter types_json) (\<lambda>type_list.
     and_then (map_exn type_item type_list) (\<lambda>types.
     and_then (py_get dat (ascii ''sprites'')) (\<lambda>sprites.
     and_then (if truthy sprites then py_get sprites (ascii ''front_default'') else Inr JNull)
       (\<lambda>sprite_url.
     and_then (py_getitem dat (ascii ''id'')) (\<lambda>a_id.
     and_then (py_getitem dat (ascii ''name'')) (\<lambda>a_name.
     and_then (map_exn as_str types) (\<lambda>type_names.
     PokemonCreate vs a_id a_name
       (stats_get stats (ascii ''hp'')) (stats_get stats (ascii ''attack'')) (stats_get stats (ascii ''defense''))
       (stats_get stats (ascii ''special-attack'')) (stats_get stats (ascii ''special-defense''))
       (stats_get stats (ascii ''speed''))
       (JStr (join [44] type_names)) sprite_url)))))))))))"

text \<open>Modelled from the spec: \<^verbatim>\<open>response.raise_for_status()\<close> belongs to the HTTP library,
  which is not part of the repository. The spec's "any other non-success response" is read
  as: it raises \<^verbatim>\<open>HTTPStatusError\<close> unless the status is a 2xx one.\<close>

definition is_success :: "nat \<Rightarrow> bool" where
  "is_success status_code = (200 \<le> status_code \<and> status_code \<le> 299)"

text \<open>The decimal rendering of a status code in an f-string.\<close>

definition digit_char :: "nat \<Rightarrow> char" where
  "digit_char d = char_of (48 + d)"

function show_nat :: "nat \<Rightarrow> string" where
  "show_nat n = (if n < 10 then [digit_char n] else show_nat (n div 10) @ [digit_char (n mod 10)])"
  by pat_completeness auto
termination
  by (relation "measure id") auto

declare show_nat.simps [simp del]

text \<open>\<^verbatim>\<open>PokeAPIClient.get_pokemon\<close>. The two \<^verbatim>\<open>except\<close> clauses catch only what the
  request and \<^verbatim>\<open>raise_for_status\<close> raise; the \<^verbatim>\<open>PokemonNotFoundError\<close> raised inside the
  \<^verbatim>\<open>try\<close> and whatever \<^verbatim>\<open>response.json()\<close> and the parse raise pass through.\<close>

definition get_pokemon :: "env \<Rightarrow> str \<Rightarrow> world \<Rightarrow> (exn + pokemon_create) \<times> world" where
  "get_pokemon e nm w =
     (let name_lower = strip (str_lower e nm);
          (cached_data, w0) = cache_get e name_lower w
      in if cached_data \<noteq> JNull then (parse_pokemon_data (schema e) cached_data, w0)
         else
             (let w1 = record_effect (HttpGet name_lower) w0
              in case http_get e name_lower of
                RequestError msg \<Rightarrow> (Inl (PokemonBattleError (PokeAPIError msg)), w1)
              | Response status_code body \<Rightarrow>
                  if status_code = 404
                  then (Inl (PokemonBattleError (PokemonNotFoundError nm)), w1)
                  else if \<not> is_success status_code
                  then (if status_code = 404
                        then (Inl (PokemonBattleError (PokemonNotFoundError nm)), w1)
                        else (Inl (PokemonBattleError
                                (PokeAPIError (ascii (''HTTP error '' @ show_nat status_code)))),
                              w1))
                  else (case body of
                          None \<Rightarrow> (Inl JSONDecodeError, w1)
                        | Some dat \<Rightarrow>
                            (let w2 = cache_set e name_lower dat w1
                             in (parse_pokemon_data (schema e) dat, w2)))))"

section \<open>The services (services.py)\<close>

text \<open>\<^verbatim>\<open>result.scalar_one_or_none()\<close>\<close>

fun scalar_one_or_none :: "'a list \<Rightarrow> exn + 'a option" where
  "scalar_one_or_none [] = Inr None"
| "scalar_one_or_none [x] = Inr (Some x)"
| "scalar_one_or_none _ = Inl MultipleResultsFound"

text \<open>\<^verbatim>\<open>PokemonService._create_pokemon\<close>: the flush sends the insertion, which the two unique
  columns can refuse, and the key comes from the table's sequence.\<close>

definition create_pokemon :: "pokemon_create \<Rightarrow> world \<Rightarrow> (exn + pokemon) \<times> world" where
  "create_pokemon dat w0 =
     (let w = record_effect InsertPokemon w0
      in if \<exists>p \<in> set (db_pokemon w). name p = name dat \<or> pokeapi_id p = pokeapi_id dat
      then (Inl IntegrityError, w)
      else (let pokemon = \<lparr>pokeapi_id = pokeapi_id dat, name = name dat, hp = hp dat,
                            attack = attack dat, defense = defense dat,
                            special_attack = special_attack dat,
                            special_defense = special_defense dat, speed = speed dat,
                            types = types dat, sprite_url = sprite_url dat,
                            pk_id = pokemon_seq w + 1\<rparr>
            in (Inr pokemon, w\<lparr>db_pokemon := db_pokemon w @ [pokemon],
                                pokemon_seq := pokemon_seq w + 1\<rparr>)))"

text \<open>\<^verbatim>\<open>PokemonService.get_or_fetch_pokemon\<close>: the query of the table comes first.\<close>

definition get_or_fetch_pokemon :: "env \<Rightarrow> str \<Rightarrow> world \<Rightarrow> (exn + pokemon) \<times> world" where
  "get_or_fetch_pokemon e nm w0 =
     (let name_lower = strip (str_lower e nm);
          w = record_effect (SelectPokemon name_lower) w0
      in case scalar_one_or_none (filter (\<lambda>p. name p = name_lower) (db_pokemon w)) of
           Inl err \<Rightarrow> (Inl err, w)
         | Inr (Some pokemon) \<Rightarrow> (Inr pokemon, w)
         | Inr None \<Rightarrow>
             (case get_pokemon e name_lower w of
                (Inl err, w1) \<Rightarrow> (Inl err, w1)
              | (Inr pokemon_data, w1) \<Rightarrow> create_pokemon pokemon_data w1))"

text \<open>\<^verbatim>\<open>BattleService.execute_battle\<close>: the names are compared before anything else
  happens; the flush of the battle row sends its insertion.\<close>

definition BattleService_execute_battle ::
    "env \<Rightarrow> str \<Rightarrow> str \<Rightarrow> world \<Rightarrow> (exn + battle) \<times> world" where
  "BattleService_execute_battle e pokemon1_name pokemon2_name w =
     (let name1 = strip (str_lower e pokemon1_name);
          name2 = strip (str_lower e pokemon2_name)
      in if name1 = name2 then (Inl (PokemonBattleError (SamePokemonError name1)), w)
         else (case get_or_fetch_pokemon e name1 w of
                 (Inl err, w1) \<Rightarrow> (Inl err, w1)
               | (Inr pokemon1, w1) \<Rightarrow>
                   (case get_or_fetch_pokemon e name2 w1 of
                      (Inl err, w2) \<Rightarrow> (Inl err, w2)
                    | (Inr pokemon2, w2) \<Rightarrow>
                        (case execute_battle pokemon1 pokemon2 of
                           Inl err \<Rightarrow> (Inl err, w2)
                         | Inr result \<Rightarrow>
                             (let w3 = record_effect InsertBattle w2;
                                  b = \<lparr>battle_id = battle_seq w3 + 1,
                                       pokemon1_id = pk_id pokemon1,
                                       pokemon2_id = pk_id pokemon2,
                                       winner_id = (case winner result of
                                                      Some p \<Rightarrow> Some (pk_id p)
                                                    | None \<Rightarrow> None),
                                       pokemon1_score_b = pokemon1_score result,
                                       pokemon2_score_b = pokemon2_score result,
                                       pokemon1_b = Some pokemon1,
                                       pokemon2_b = Some pokemon2,
                                       winner_b = winner result\<rparr>
                              in (Inr b, w3\<lparr>db_battles := db_battles w3 @ [b],
                                            battle_seq := battle_seq w3 + 1\<rparr>))))))"

section \<open>The formulas as the specification words them\<close>

text \<open>Base power: \<open>offensive = (offense + special_offense) / 2\<close>,
  \<open>defensive = (defense + special_defense) / 2\<close>,
  \<open>power = (vitality \<times> 0.5 + offensive + defensive + speed) / 4\<close>, in float arithmetic from
  left to right.\<close>

definition spec_base_power :: "int \<Rightarrow> int \<Rightarrow> int \<Rightarrow> int \<Rightarrow> int \<Rightarrow> int \<Rightarrow> pyfloat" where
  "spec_base_power vitality offense defence special_offense special_defence spd =
     (let offensive = fl (of_int (offense + special_offense) / 2);
          defensive = fl (of_int (defence + special_defence) / 2)
      in fdiv (fadd (fadd (fadd (fmul (float_of_int vitality) (1/2)) offensive) defensive)
                    (float_of_int spd))
              4)"

text \<open>Per-side score: \<open>type_bonus = effectiveness \<times> base \<times> 0.3\<close>,
  \<open>speed_ratio = attacker.speed / max(defender.speed, 1)\<close>,
  \<open>speed_bonus = min(speed_ratio, 2.0) \<times> base \<times> 0.2\<close>,
  \<open>score = base \<times> 0.5 + type_bonus + speed_bonus\<close>, in float arithmetic from left to
  right.\<close>

definition spec_side_score :: "pyfloat \<Rightarrow> pyfloat \<Rightarrow> int \<Rightarrow> int \<Rightarrow> pyfloat" where
  "spec_side_score base effectiveness attacker_speed defender_speed =
     (let type_bonus = fmul (fmul effectiveness base) lit_0_3;
          speed_ratio = fl (of_int attacker_speed / of_int (max defender_speed 1));
          speed_bonus = fmul (fmul (min speed_ratio 2) base) lit_0_2
      in fadd (fadd (fmul base (1/2)) type_bonus) speed_bonus)"

section \<open>Fixtures\<close>

text \<open>The records of the test suite (\<^verbatim>\<open>conftest.py\<close>, \<^verbatim>\<open>test_battle.py\<close>), and four more: a
  defender whose speed is 0, a record whose type column holds only separators, and two
  records whose exact scores differ by exactly one hundredth of their mean.\<close>

definition pikachu :: pokemon where
  "pikachu = \<lparr>pokeapi_id = 25, name = ascii ''pikachu'', hp = 35, attack = 55, defense = 40,
     special_attack = 50, special_defense = 50, speed = 90, types = ascii ''electric'',
     sprite_url = None, pk_id = 1\<rparr>"

definition charizard :: pokemon where
  "charizard = \<lparr>pokeapi_id = 6, name = ascii ''charizard'', hp = 78, attack = 84, defense = 78,
     special_attack = 109, special_defense = 85, speed = 100, types = ascii ''fire,flying'',
     sprite_url = None, pk_id = 2\<rparr>"

definition pikachu2 :: pokemon where
  "pikachu2 = \<lparr>pokeapi_id = 25, name = ascii ''pikachu2'', hp = 35, attack = 55, defense = 40,
     special_attack = 50, special_defense = 50, speed = 90, types = ascii ''electric'',
     sprite_url = None, pk_id = 2\<rparr>"

definition motionless :: pokemon where
  "motionless = \<lparr>pokeapi_id = 79, name = ascii ''slowpoke'', hp = 90, attack = 65, defense = 65,
     special_attack = 40, special_defense = 40, speed = 0, types = ascii ''water,psychic'',
     sprite_url = None, pk_id = 3\<rparr>"

definition typeless :: pokemon where
  "typeless = \<lparr>pokeapi_id = 132, name = ascii ''ditto'', hp = 48, attack = 48, defense = 48,
     special_attack = 48, special_defense = 48, speed = 48, types = ascii '' , ,, '',
     sprite_url = None, pk_id = 4\<rparr>"

definition near_a :: pokemon where
  "near_a = \<lparr>pokeapi_id = 1001, name = ascii ''near-a'', hp = 83, attack = 100, defense = 100,
     special_attack = 100, special_defense = 100, speed = 60, types = ascii ''fire'',
     sprite_url = None, pk_id = 5\<rparr>"

definition near_b :: pokemon where
  "near_b = \<lparr>pokeapi_id = 1002, name = ascii ''near-b'', hp = 77, attack = 100, defense = 100,
     special_attack = 100, special_defense = 100, speed = 60, types = ascii ''fire'',
     sprite_url = None, pk_id = 6\<rparr>"

section \<open>Runs of the cache, and an environment for the fixtures\<close>

text \<open>The three methods of \<^verbatim>\<open>PokemonCache\<close> as operations, to speak about any sequence of calls;
  a lookup's result is dropped, its effect on the cache kept.\<close>

datatype cache_op = OpGet str | OpSet str json | OpClear

fun cache_step :: "env \<Rightarrow> cache_op \<Rightarrow> world \<Rightarrow> world" where
  "cache_step e (OpGet key) w = snd (cache_get e key w)"
| "cache_step e (OpSet key v) w = cache_set e key v w"
| "cache_step e OpClear w = cache_clear w"

text \<open>The exceptions that decoding and parsing a payload raise: none of them is caught by
  \<^verbatim>\<open>get_pokemon\<close>.\<close>

fun payload_error :: "exn \<Rightarrow> bool" where
  "payload_error (KeyError k) = True"
| "payload_error TypeError = True"
| "payload_error AttributeError = True"
| "payload_error ValidationError = True"
| "payload_error JSONDecodeError = True"
| "payload_error _ = False"

text \<open>Validators that accept a value of exactly the declared type; they stand for the schema
  library when the model runs on the fixtures.\<close>

fun strict_int :: "json \<Rightarrow> int option" where
  "strict_int (JInt n) = Some n"
| "strict_int _ = None"

fun strict_str :: "json \<Rightarrow> str option" where
  "strict_str (JStr s) = Some s"
| "strict_str _ = None"

fun strict_opt_str :: "json \<Rightarrow> str option option" where
  "strict_opt_str JNull = Some None"
| "strict_opt_str (JStr s) = Some (Some s)"
| "strict_opt_str _ = None"

text \<open>\<^verbatim>\<open>str.lower\<close> on the strings whose code points are all below U+0100: the capitals are
  U+0041 to U+005A, U+00C0 to U+00D6 and U+00D8 to U+00DE, each 32 below its small letter.
  It stands for the runtime's function when the model runs on the fixtures.\<close>

definition latin1_lower :: "str \<Rightarrow> str" where
  "latin1_lower s =
     map (\<lambda>c. if (0x41 \<le> c \<and> c \<le> 0x5A) \<or> (0xC0 \<le> c \<and> c \<le> 0xD6) \<or> (0xD8 \<le> c \<and> c \<le> 0xDE)
               then c + 32 else c) s"

text \<open>\<^verbatim>\<open>mock_pikachu_data\<close> of \<^verbatim>\<open>conftest.py\<close>\<close>

definition stat_entry :: "int \<Rightarrow> string \<Rightarrow> json" where
  "stat_entry base_stat stat_name =
     JObj [(ascii ''base_stat'', JInt base_stat),
           (ascii ''stat'', JObj [(ascii ''name'', JStr (ascii stat_name))])]"

definition mock_pikachu_data :: json where
  "mock_pikachu_data = JObj [
     (ascii ''id'', JInt 25),
     (ascii ''name'', JStr (ascii ''pikachu'')),
     (ascii ''stats'', JArr [
        stat_entry 35 ''hp'', stat_entry 55 ''attack'', stat_entry 40 ''defense'',
        stat_entry 50 ''special-attack'', stat_entry 50 ''special-defense'',
        stat_entry 90 ''speed'']),
     (ascii ''types'', JArr [JObj [(ascii ''type'', JObj [(ascii ''name'', JStr (ascii ''electric''))])]]),
     (ascii ''sprites'',
        JObj [(ascii ''front_default'', JStr (ascii ''https://example.com/pikachu.png''))])]"

text \<open>An external source that knows \<^verbatim>\<open>pikachu\<close>, answers 404 for \<^verbatim>\<open>missingno\<close>, 503 for
  \<^verbatim>\<open>mew\<close>, a success with the empty object for \<^verbatim>\<open>ditto\<close>, and cannot be reached for any
  other name; a clock that advances 100 seconds between two readings.\<close>

definition test_env :: env where
  "test_env =
     \<lparr>http_get = (\<lambda>n. if n = ascii ''pikachu'' then Response 200 (Some mock_pikachu_data)
                       else if n = ascii ''missingno'' then Response 404 None
                       else if n = ascii ''mew'' then Response 503 None
                       else if n = ascii ''ditto'' then Response 200 (Some (JObj []))
                       else RequestError (ascii ''connection refused'')),
      clock = (\<lambda>n. 100 * of_nat n),
      schema = \<lparr>valid_int = strict_int, valid_str = strict_str,
                 valid_opt_str = strict_opt_str\<rparr>,
      str_lower = latin1_lower\<rparr>"

definition empty_world :: world where
  "empty_world = \<lparr>db_pokemon = [], pokemon_seq = 0, db_battles = [], battle_seq = 0,
                   cache = \<lparr>entries = Map.empty, ttl = 60\<rparr>, ticks = 0, effects = []\<rparr>"

definition stocked_world :: world where
  "stocked_world = empty_world\<lparr>db_pokemon := [pikachu, charizard], pokemon_seq := 2\<rparr>"

section \<open>Properties of the float arithmetic\<close>

lemma round_half_even_minus: "round_half_even (- x) = - round_half_even x"
proof -
  define f where "f = \<lfloor>x\<rfloor>"
  define r where "r = x - of_int f"
  have r: "0 \<le> r" "r < 1" by (simp_all add: r_def f_def) linarith
  have x: "x = of_int f + r" by (simp add: r_def)
  show ?thesis
  proof (cases "r = 0")
    case True
    then have "x = of_int f" using x by simp
    moreover have "\<lfloor>- (of_int f :: rat)\<rfloor> = - f" by (simp add: floor_eq_iff)
    ultimately show ?thesis by (simp add: round_half_even_def)
  next
    case False
    with r have pos: "0 < r" by simp
    have fm: "\<lfloor>- x\<rfloor> = - f - 1"
      using pos r by (simp add: floor_eq_iff x)
    have rm: "- x - of_int (- f - 1) = 1 - r" by (simp add: x)
    have a: "round_half_even x =
              (if r < 1/2 then f else if 1/2 < r then f + 1 else if even f then f else f + 1)"
      by (simp only: round_half_even_def Let_def f_def [symmetric] r_def [symmetric])
    have b: "round_half_even (- x) =
              (if 1 - r < 1/2 then - f - 1 else if 1/2 < 1 - r then - f
               else if even (- f - 1) then - f - 1 else - f)"
    proof -
      have "round_half_even (- x) =
              (if 1 - r < 1/2 then - f - 1 else if 1/2 < 1 - r then - f - 1 + 1
               else if even (- f - 1) then - f - 1 else - f - 1 + 1)"
        by (simp only: round_half_even_def Let_def fm rm)
      then show ?thesis by simp
    qed
    show ?thesis unfolding a b using pos r by auto
  qed
qed

lemma exponent_of_minus: "exponent_of (- x) = exponent_of x"
  by (simp add: exponent_of_def)

lemma fl_minus: "fl (- x) = - fl x"
  by (simp add: fl_def exponent_of_minus round_half_even_minus Let_def)

lemma fl_zero: "fl 0 = 0"
  by (simp add: fl_def)

lemma exponent_of_lower:
  assumes "x \<noteq> 0"
  shows "2 powi (exponent_of x) \<le> \<bar>x\<bar>"
proof -
  obtain p q where pq: "quotient_of \<bar>x\<bar> = (p, q)" by (cases "quotient_of \<bar>x\<bar>")
  then have q: "0 < q" by (rule quotient_of_denom_pos)
  from pq have ax: "\<bar>x\<bar> = of_int p / of_int q" by (rule quotient_of_div)
  from assms have "0 < \<bar>x\<bar>" by simp
  with ax q have p: "0 < p" by (simp add: zero_less_divide_iff)
  define bp where "bp = bitlen p"
  define bq where "bq = bitlen q"
  from bitlen_bounds [OF p] have lp: "2 ^ nat (bp - 1) \<le> p" by (simp add: bp_def)
  from bitlen_bounds [OF q] have uq: "q < 2 ^ nat bq" by (simp add: bq_def)
  have bp1: "1 \<le> bp" using p by (simp add: bp_def bitlen_alt_def)
  have bq0: "0 \<le> bq" by (simp add: bq_def bitlen_nonneg)
  have "bp - bq - 1 = (bp - 1) - bq" by simp
  then have "(2::rat) powi (bp - bq - 1) = 2 powi (bp - 1) / 2 powi bq"
    by (simp only: power_int_diff [of "2::rat" "bp - 1" bq, simplified])
  also have "\<dots> = 2 ^ nat (bp - 1) / 2 ^ nat bq"
    using bp1 bq0 by (simp add: power_int_def)
  also have "\<dots> \<le> of_int p / of_int q"
  proof -
    have a: "(2::rat) ^ nat (bp - 1) \<le> of_int p"
      using lp by (metis of_int_le_iff of_int_numeral of_int_power)
    have b: "of_int q \<le> (2::rat) ^ nat bq"
      using uq by (metis less_imp_le of_int_le_iff of_int_numeral of_int_power)
    have c: "(0::rat) < of_int q" using q by simp
    from a b c p show ?thesis by (intro frac_le) simp_all
  qed
  finally have low: "(2::rat) powi (bp - bq - 1) \<le> \<bar>x\<bar>" by (simp add: ax)
  show ?thesis
    using low by (simp add: exponent_of_def pq Let_def bp_def bq_def)
qed

lemma round_half_even_ge_floor: "\<lfloor>x\<rfloor> \<le> round_half_even x"
  by (simp add: round_half_even_def Let_def)

text \<open>Rounding does not take a positive number to zero.\<close>

lemma fl_pos:
  assumes "0 < x"
  shows "0 < fl x"
proof -
  define ulp :: rat where "ulp = 2 powi (exponent_of x - 52)"
  have ulp: "0 < ulp" by (simp add: ulp_def)
  have "ulp \<le> 2 powi (exponent_of x)"
    unfolding ulp_def by (rule power_int_increasing) simp_all
  also have "\<dots> \<le> x" using exponent_of_lower [of x] assms by simp
  finally have "1 \<le> x / ulp" using ulp by (simp add: le_divide_eq)
  then have "1 \<le> \<lfloor>x / ulp\<rfloor>" by (simp add: le_floor_iff)
  from this round_half_even_ge_floor [of "x / ulp"]
  have "1 \<le> round_half_even (x / ulp)" by (rule order_trans)
  then have "0 < (of_int (round_half_even (x / ulp)) :: rat)" by simp
  with ulp have "0 < of_int (round_half_even (x / ulp)) * ulp" by simp
  with assms show ?thesis by (simp add: fl_def Let_def ulp_def)
qed

lemma fadd_commute: "fadd a b = fadd b a"
  by (simp add: fadd_def add.commute)

lemma abs_fsub_swap: "\<bar>fsub a b\<bar> = \<bar>fsub b a\<bar>"
proof -
  have "fsub a b = - fsub b a" using fl_minus [of "b - a"] by (simp add: fsub_def)
  then show ?thesis by simp
qed

lemma fsub_self: "fsub a a = 0"
  by (simp add: fsub_def fl_zero)

lemma lit_0_01_pos: "0 < lit_0_01"
  unfolding lit_0_01_def by (rule fl_pos) simp

lemma fmul_pos: "0 < a \<Longrightarrow> 0 < b \<Longrightarrow> 0 < fmul a b"
  unfolding fmul_def by (rule fl_pos) simp

text \<open>The powers of two that products of chart entries take are floats.\<close>

lemma fl_dyadic:
  "fl (1/16) = 1/16" "fl (1/8) = 1/8" "fl (1/4) = 1/4" "fl (1/2) = 1/2" "fl 1 = 1"
  "fl 2 = 2" "fl 4 = 4" "fl 8 = 8" "fl 16 = 16"
  by code_simp+

section \<open>Properties of the scoring code\<close>

subsection \<open>Type effectiveness\<close>

lemma chart_values: "\<forall>(a, c) \<in> set TYPE_CHART. \<forall>(d, v) \<in> set c. v \<in> {0, 1/2, 1, 2}"
  unfolding TYPE_CHART_def chart_row_def by simp

lemma type_mult_range: "dict_get (dict_get TYPE_CHART a []) d 1 \<in> {0, 1/2, 1, 2::rat}"
proof (cases "map_of TYPE_CHART a")
  case None
  then show ?thesis by (simp add: dict_get_def)
next
  case (Some c)
  then have ac: "(a, c) \<in> set TYPE_CHART" by (rule map_of_SomeD)
  show ?thesis
  proof (cases "map_of c d")
    case None
    with Some show ?thesis by (simp add: dict_get_def)
  next
    case (Some v)
    then have "(d, v) \<in> set c" by (rule map_of_SomeD)
    with ac chart_values have "v \<in> {0, 1/2, 1, 2}" by blast
    with Some \<open>map_of TYPE_CHART a = Some c\<close> show ?thesis by (simp add: dict_get_def)
  qed
qed

lemma stack1: "y \<in> {0, 1/2, 1, 2::rat} \<Longrightarrow> fmul 1 y \<in> {0, 1/2, 1, 2}"
  by (elim insertE emptyE; hypsubst; simp add: fmul_def fl_zero fl_dyadic)

lemma stack2:
  "x \<in> {0, 1/2, 1, 2::rat} \<Longrightarrow> y \<in> {0, 1/2, 1, 2} \<Longrightarrow> fmul x y \<in> {0, 1/4, 1/2, 1, 2, 4}"
  by (elim insertE emptyE; hypsubst; simp add: fmul_def fl_zero fl_dyadic)

lemma stack3:
  "x \<in> {0, 1/4, 1/2, 1, 2, 4::rat} \<Longrightarrow> y \<in> {0, 1/2, 1, 2}
    \<Longrightarrow> fmul x y \<in> {0, 1/8, 1/4, 1/2, 1, 2, 4, 8}"
  by (elim insertE emptyE; hypsubst; simp add: fmul_def fl_zero fl_dyadic)

lemma stack4:
  "x \<in> {0, 1/8, 1/4, 1/2, 1, 2, 4, 8::rat} \<Longrightarrow> y \<in> {0, 1/2, 1, 2}
    \<Longrightarrow> fmul x y \<in> {0, 1/16, 1/8, 1/4, 1/2, 1, 2, 4, 8, 16}"
  by (elim insertE emptyE; hypsubst; simp add: fmul_def fl_zero fl_dyadic)

lemma widen_range:
  "x \<in> {0, 1/4, 1/2, 1, 2, 4::rat} \<Longrightarrow> x \<in> {0, 1/16, 1/8, 1/4, 1/2, 1, 2, 4, 8, 16}"
  by (elim insertE emptyE; hypsubst; simp)

lemma bounds16: "x \<in> {0, 1/16, 1/8, 1/4, 1/2, 1, 2, 4, 8, 16::rat} \<Longrightarrow> 0 \<le> x \<and> x \<le> 16"
  by (elim insertE emptyE; hypsubst; simp)

lemma bounds4: "x \<in> {0, 1/4, 1/2, 1, 2, 4::rat} \<Longrightarrow> 0 \<le> x \<and> x \<le> 4"
  by (elim insertE emptyE; hypsubst; simp)

lemma one_or_two:
  "length xs = 1 \<or> length xs = 2 \<Longrightarrow> (\<exists>a. xs = [a]) \<or> (\<exists>a b. xs = [a, b])"
  by (cases xs) (auto simp: length_Suc_conv)

lemma effectiveness_1_1:
  "get_type_effectiveness [a] [d] = fmul 1 (dict_get (dict_get TYPE_CHART a []) d 1)"
  by (simp add: get_type_effectiveness_def Let_def)

lemma effectiveness_1_2:
  "get_type_effectiveness [a] [d, e] =
     fmul (fmul 1 (dict_get (dict_get TYPE_CHART a []) d 1))
          (dict_get (dict_get TYPE_CHART a []) e 1)"
  by (simp add: get_type_effectiveness_def Let_def)

lemma effectiveness_2_1:
  "get_type_effectiveness [a, b] [d] =
     fmul (fmul 1 (dict_get (dict_get TYPE_CHART a []) d 1))
          (dict_get (dict_get TYPE_CHART b []) d 1)"
  by (simp add: get_type_effectiveness_def Let_def)

lemma effectiveness_2_2:
  "get_type_effectiveness [a, b] [d, e] =
     fmul (fmul (fmul (fmul 1 (dict_get (dict_get TYPE_CHART a []) d 1))
                      (dict_get (dict_get TYPE_CHART a []) e 1))
                (dict_get (dict_get TYPE_CHART b []) d 1))
          (dict_get (dict_get TYPE_CHART b []) e 1)"
  by (simp add: get_type_effectiveness_def Let_def)

lemma single_side_range:
  assumes "length ats = 1 \<and> (length dts = 1 \<or> length dts = 2)
         \<or> (length ats = 1 \<or> length ats = 2) \<and> length dts = 1"
  shows "get_type_effectiveness ats dts \<in> {0, 1/4, 1/2, 1, 2, 4}"
proof -
  from assms consider
      a d where "ats = [a]" "dts = [d]"
    | a d e where "ats = [a]" "dts = [d, e]"
    | a b d where "ats = [a, b]" "dts = [d]"
    using one_or_two [of ats] one_or_two [of dts] by auto
  then show ?thesis
  proof cases
    case 1
    with stack1 [OF type_mult_range [of a d]] show ?thesis by (auto simp: effectiveness_1_1)
  next
    case 2
    with stack2 [OF stack1 [OF type_mult_range [of a d]] type_mult_range [of a e]]
    show ?thesis by (simp only: effectiveness_1_2)
  next
    case 3
    with stack2 [OF stack1 [OF type_mult_range [of a d]] type_mult_range [of b d]]
    show ?thesis by (simp only: effectiveness_2_1)
  qed
qed

lemma dual_range:
  "get_type_effectiveness [a, b] [d, e] \<in> {0, 1/16, 1/8, 1/4, 1/2, 1, 2, 4, 8, 16}"
  unfolding effectiveness_2_2
  by (intro stack4 stack3 stack2 stack1 type_mult_range)

text \<open>What the two loops compute on sequences of one or two labels: the product of up to
  four chart entries, so a value among 0, 1/16, 1/8, 1/4, 1/2, 1, 2, 4, 8, 16; with a
  single label on one side, at most two entries, so a value among 0, 1/4, 1/2, 1, 2, 4.\<close>

lemma effectiveness_cross_product_range:
  assumes "length ats = 1 \<or> length ats = 2" and "length dts = 1 \<or> length dts = 2"
  shows "get_type_effectiveness ats dts \<in> {0, 1/16, 1/8, 1/4, 1/2, 1, 2, 4, 8, 16}
       \<and> (length ats = 1 \<or> length dts = 1 \<longrightarrow>
            get_type_effectiveness ats dts \<le> 4
          \<and> get_type_effectiveness ats dts \<in> {0, 1/4, 1/2, 1, 2, 4})"
proof -
  have small: "get_type_effectiveness ats dts \<in> {0, 1/4, 1/2, 1, 2, 4}"
    if "length ats = 1 \<or> length dts = 1"
    using that assms by (intro single_side_range) blast
  have big: "get_type_effectiveness ats dts \<in> {0, 1/16, 1/8, 1/4, 1/2, 1, 2, 4, 8, 16}"
  proof (cases "length ats = 1 \<or> length dts = 1")
    case True
    then show ?thesis by (intro widen_range small)
  next
    case False
    with assms obtain a b d e where "ats = [a, b]" "dts = [d, e]"
      using one_or_two [of ats] one_or_two [of dts] by auto
    then show ?thesis by (simp only: dual_range)
  qed
  from big small bounds4 show ?thesis by blast
qed

text \<open>
  \<^bold>\<open>C1\<close>. The bound of 4 and the set 0, 0.25, 0.5, 1, 2, 4 are what the module's docstring
  promises ("ranges from 0.25x to 4x") and what a single attacking label gives. The code
  multiplies the entries of all pairs of an attacker label and a defender label: with two
  labels on each side these are four entries, and for water/ground attacking fire/rock,
  four of the 18 known labels, each entry is 2 and the result is 16, above the bound and
  outside the set.
\<close>

theorem type_effectiveness_exceeds_four:
  "ascii ''water'' \<in> set known_types \<and> ascii ''ground'' \<in> set known_types
   \<and> ascii ''fire'' \<in> set known_types \<and> ascii ''rock'' \<in> set known_types
   \<and> get_type_effectiveness [ascii ''water'', ascii ''ground''] [ascii ''fire'', ascii ''rock'']
        = 16
   \<and> \<not> get_type_effectiveness [ascii ''water'', ascii ''ground'']
          [ascii ''fire'', ascii ''rock''] \<le> 4
   \<and> get_type_effectiveness [ascii ''water'', ascii ''ground''] [ascii ''fire'', ascii ''rock'']
        \<notin> {0, 1/4, 1/2, 1, 2, 4}"
  by code_simp

subsection \<open>The per-side score\<close>

lemma score_total:
  "calculate_battle_score attacker defender ats dts =
     Inr (spec_side_score (calculate_base_power attacker) (get_type_effectiveness ats dts)
            (speed attacker) (speed defender))"
  by (simp add: calculate_battle_score_def py_truediv_def and_then_def spec_side_score_def Let_def)

lemma base_power_spec:
  "calculate_base_power p =
     spec_base_power (hp p) (attack p) (defense p) (special_attack p) (special_defense p) (speed p)"
  by (simp add: calculate_base_power_def spec_base_power_def Let_def)

lemma example_base_power: "spec_base_power 35 55 40 50 50 90 = 205 / 4"
  by code_simp

lemma base_power_pikachu: "calculate_base_power pikachu = 205 / 4"
  by (simp add: base_power_spec pikachu_def example_base_power)

lemma base_power_charizard: "calculate_base_power charizard = 317 / 4"
  by code_simp

lemma base_power_near_a: "calculate_base_power near_a = 603 / 8"
  by code_simp

lemma base_power_near_b: "calculate_base_power near_b = 597 / 8"
  by code_simp

lemma fixture_types:
  "parse_types (types pikachu) = [ascii ''electric'']"
  "parse_types (types charizard) = [ascii ''fire'', ascii ''flying'']"
  "parse_types (types motionless) = [ascii ''water'', ascii ''psychic'']"
  "parse_types (types near_a) = [ascii ''fire'']"
  "parse_types (types near_b) = [ascii ''fire'']"
  by code_simp+

lemma fixture_speeds:
  "speed pikachu = 90" "speed charizard = 100" "speed motionless = 0"
  "speed near_a = 60" "speed near_b = 60"
  by (simp_all add: pikachu_def charizard_def motionless_def near_a_def near_b_def)

lemma fixture_effectiveness:
  "get_type_effectiveness [ascii ''electric''] [ascii ''fire'', ascii ''flying''] = 2"
  "get_type_effectiveness [ascii ''fire'', ascii ''flying''] [ascii ''electric''] = 1 / 2"
  "get_type_effectiveness [ascii ''electric''] [ascii ''water'', ascii ''psychic''] = 2"
  "get_type_effectiveness [ascii ''fire''] [ascii ''fire''] = 1 / 2"
  by code_simp+

lemma side_pikachu_motionless: "spec_side_score (205 / 4) 2 90 0 = 615 / 8"
  by code_simp

lemma side_pikachu_charizard:
  "spec_side_score (205 / 4) 2 90 100 = 2308094809027379 / 35184372088832"
  by code_simp

lemma side_charizard_pikachu:
  "spec_side_score (317 / 4) (1 / 2) 100 90 = 4864141706914111 / 70368744177664"
  by code_simp

lemma side_near_a: "spec_side_score (603 / 8) (1 / 2) 60 60 = 2254218739266355 / 35184372088832"
  by code_simp

lemma side_near_b: "spec_side_score (597 / 8) (1 / 2) 60 60 = 2231788702059725 / 35184372088832"
  by code_simp

lemma pikachu_vs_motionless:
  "calculate_battle_score pikachu motionless [ascii ''electric'']
     [ascii ''water'', ascii ''psychic''] = Inr (615 / 8)"
  by (simp add: score_total base_power_pikachu fixture_effectiveness fixture_speeds
        side_pikachu_motionless)

text \<open>
  \<^bold>\<open>C2\<close>. For every attacker and defender, \<^verbatim>\<open>calculate_battle_score\<close> returns (it never
  raises) the specification's
  \<open>base \<times> 0.5 + effectiveness \<times> base \<times> 0.3 + min(attacker.speed / max(defender.speed, 1), 2.0) \<times> base \<times> 0.2\<close>
  with the specification's base power of the attacker; the attributes 35, 55, 40, 50, 50, 90
  give the base power 51.25; and with a defender of speed 0 the division is by 1 and does not
  raise \<^verbatim>\<open>ZeroDivisionError\<close>.
\<close>

theorem battle_score_formula:
  "calculate_battle_score attacker defender ats dts =
     Inr (spec_side_score
            (spec_base_power (hp attacker) (attack attacker) (defense attacker)
               (special_attack attacker) (special_defense attacker) (speed attacker))
            (get_type_effectiveness ats dts) (speed attacker) (speed defender))
   \<and> (hp attacker = 35 \<and> attack attacker = 55 \<and> defense attacker = 40
        \<and> special_attack attacker = 50 \<and> special_defense attacker = 50 \<and> speed attacker = 90
      \<longrightarrow> calculate_base_power attacker = 205 / 4)
   \<and> (speed defender = 0
      \<longrightarrow> calculate_battle_score attacker defender ats dts \<noteq> Inl ZeroDivisionError
        \<and> py_truediv (speed attacker) (max (speed defender) 1)
            = Inr (float_of_int (speed attacker)))"
  by (simp add: score_total base_power_spec example_base_power py_truediv_def float_of_int_def)

theorem battle_score_formula_witness:
  "calculate_base_power pikachu = 205 / 4
   \<and> speed motionless = 0
   \<and> calculate_battle_score pikachu motionless [ascii ''electric'']
        [ascii ''water'', ascii ''psychic''] = Inr (615 / 8)
   \<and> calculate_battle_score pikachu motionless [ascii ''electric'']
        [ascii ''water'', ascii ''psychic''] \<noteq> Inl ZeroDivisionError"
  using battle_score_formula [of pikachu motionless "[ascii ''electric'']"
          "[ascii ''water'', ascii ''psychic'']"]
        pikachu_vs_motionless
  by (simp add: pikachu_def motionless_def)

subsection \<open>Contest resolution\<close>

lemma execute_battle_unfold:
  "execute_battle a b =
     (let score1 = spec_side_score (calculate_base_power a)
                     (get_type_effectiveness (parse_types (types a)) (parse_types (types b)))
                     (speed a) (speed b);
          score2 = spec_side_score (calculate_base_power b)
                     (get_type_effectiveness (parse_types (types b)) (parse_types (types a)))
                     (speed b) (speed a);
          dr = (if fdiv (fadd score1 score2) 2 > 0
                then \<bar>fsub score1 score2\<bar> < fmul (fdiv (fadd score1 score2) 2) lit_0_01
                else score1 = score2)
      in Inr \<lparr>winner = (if dr then None else if score1 > score2 then Some a else Some b),
               pokemon1_score = py_round score1 2,
               pokemon2_score = py_round score2 2,
               is_draw = dr\<rparr>)"
  by (simp add: execute_battle_def score_total and_then_def Let_def)

lemma equal_scores_draw:
  "(if fdiv (fadd s s) 2 > 0
    then \<bar>fsub s s\<bar> < fmul (fdiv (fadd s s) 2) lit_0_01
    else s = s)"
  by (simp add: fsub_self fmul_pos lit_0_01_pos)

lemma execute_battle_returns: "\<exists>r. execute_battle a b = Inr r"
  by (simp add: execute_battle_unfold Let_def)

lemma execute_battle_shape:
  "\<exists>s1 s2 dr. execute_battle a b =
     Inr \<lparr>winner = (if dr then None else if s2 < s1 then Some a else Some b),
          pokemon1_score = py_round s1 2, pokemon2_score = py_round s2 2, is_draw = dr\<rparr>"
  unfolding execute_battle_unfold Let_def by blast

lemma winner_cases:
  assumes "execute_battle a b = Inr r"
  shows "(winner r = None \<longleftrightarrow> is_draw r)
       \<and> (winner r = None \<or> winner r = Some a \<or> winner r = Some b)"
proof -
  from execute_battle_shape [of a b] assms obtain s1 s2 dr where
    "r = \<lparr>winner = (if dr then None else if s2 < s1 then Some a else Some b),
          pokemon1_score = py_round s1 2, pokemon2_score = py_round s2 2, is_draw = dr\<rparr>"
    by auto
  then show ?thesis by (cases dr) simp_all
qed

lemma draw_test_pikachu_charizard:
  "fsub (2308094809027379 / 35184372088832) (4864141706914111 / 70368744177664)
     = - (247952088859353 / 70368744177664)"
  "fdiv (fadd (2308094809027379 / 35184372088832) (4864141706914111 / 70368744177664)) 2
     = 2370082831242217 / 35184372088832"
  "fmul (2370082831242217 / 35184372088832) lit_0_01 = 1516853011995019 / 2251799813685248"
  by code_simp+

lemma rounded_pikachu_charizard:
  "py_round (2308094809027379 / 35184372088832) 2 = 2308094809027379 / 35184372088832"
  "py_round (4864141706914111 / 70368744177664) 2 = 607985949695017 / 8796093022208"
  by code_simp+

lemma pikachu_vs_charizard:
  "execute_battle pikachu charizard =
     Inr \<lparr>winner = Some charizard,
          pokemon1_score = 2308094809027379 / 35184372088832,
          pokemon2_score = 607985949695017 / 8796093022208,
          is_draw = False\<rparr>"
  by (simp add: execute_battle_unfold Let_def base_power_pikachu base_power_charizard
        fixture_types fixture_effectiveness fixture_speeds side_pikachu_charizard
        side_charizard_pikachu draw_test_pikachu_charizard rounded_pikachu_charizard)

text \<open>The two records whose exact scores, 10251/160 and 10149/160, differ by exactly one
  hundredth of their mean: the floats do not, and the result is a draw.\<close>

lemma draw_test_near:
  "fsub (2254218739266355 / 35184372088832) (2231788702059725 / 35184372088832)
     = 11215018603315 / 17592186044416"
  "fdiv (fadd (2254218739266355 / 35184372088832) (2231788702059725 / 35184372088832)) 2
     = 255 / 4"
  "fmul (255 / 4) lit_0_01 = 5742089524897383 / 9007199254740992"
  by code_simp+

lemma rounded_near:
  "py_round (2254218739266355 / 35184372088832) 2 = 1127131359865733 / 17592186044416"
  "py_round (2231788702059725 / 35184372088832) 2 = 8926978886378455 / 140737488355328"
  by code_simp+

lemma near_a_vs_near_b:
  "execute_battle near_a near_b =
     Inr \<lparr>winner = None,
          pokemon1_score = 1127131359865733 / 17592186044416,
          pokemon2_score = 8926978886378455 / 140737488355328,
          is_draw = True\<rparr>"
  by (simp add: execute_battle_unfold Let_def base_power_near_a base_power_near_b
        fixture_types fixture_effectiveness fixture_speeds side_near_a side_near_b
        draw_test_near rounded_near)

text \<open>
  \<^bold>\<open>C3\<close>. \<^verbatim>\<open>execute_battle\<close> computes both scores and returns; with
  \<open>diff = |score_a - score_b|\<close> and \<open>avg = (score_a + score_b) / 2\<close>, computed as floats, it
  declares a draw exactly when \<open>avg > 0\<close> and \<open>diff < avg \<times> 0.01\<close>, or \<open>avg\<close> is not
  positive and the scores are equal. When it is not a draw the scores differ and the
  participant with the strictly higher score is the winner.
\<close>

theorem draw_policy:
  "\<exists>score_a score_b r.
      calculate_battle_score a b (parse_types (types a)) (parse_types (types b)) = Inr score_a
    \<and> calculate_battle_score b a (parse_types (types b)) (parse_types (types a)) = Inr score_b
    \<and> execute_battle a b = Inr r
    \<and> (is_draw r \<longleftrightarrow>
           (0 < fdiv (fadd score_a score_b) 2
              \<and> \<bar>fsub score_a score_b\<bar> < fmul (fdiv (fadd score_a score_b) 2) lit_0_01)
         \<or> (\<not> 0 < fdiv (fadd score_a score_b) 2 \<and> score_a = score_b))
    \<and> (\<not> is_draw r \<longrightarrow>
           score_a \<noteq> score_b
         \<and> (score_b < score_a \<longrightarrow> winner r = Some a)
         \<and> (score_a < score_b \<longrightarrow> winner r = Some b))"
proof -
  define sa where "sa = spec_side_score (calculate_base_power a)
    (get_type_effectiveness (parse_types (types a)) (parse_types (types b))) (speed a) (speed b)"
  define sb where "sb = spec_side_score (calculate_base_power b)
    (get_type_effectiveness (parse_types (types b)) (parse_types (types a))) (speed b) (speed a)"
  define dr where "dr = (if fdiv (fadd sa sb) 2 > 0
      then \<bar>fsub sa sb\<bar> < fmul (fdiv (fadd sa sb) 2) lit_0_01 else sa = sb)"
  define r where "r = \<lparr>winner = (if dr then None else if sa > sb then Some a else Some b),
      pokemon1_score = py_round sa 2, pokemon2_score = py_round sb 2, is_draw = dr\<rparr>"
  have 1: "calculate_battle_score a b (parse_types (types a)) (parse_types (types b)) = Inr sa"
    by (simp add: score_total sa_def)
  have 2: "calculate_battle_score b a (parse_types (types b)) (parse_types (types a)) = Inr sb"
    by (simp add: score_total sb_def)
  have 3: "execute_battle a b = Inr r"
    by (simp add: execute_battle_unfold Let_def r_def dr_def sa_def sb_def)
  have 4: "is_draw r \<longleftrightarrow>
           (0 < fdiv (fadd sa sb) 2 \<and> \<bar>fsub sa sb\<bar> < fmul (fdiv (fadd sa sb) 2) lit_0_01)
         \<or> (\<not> 0 < fdiv (fadd sa sb) 2 \<and> sa = sb)"
    by (simp add: r_def dr_def)
  have ne: "sa \<noteq> sb" if "\<not> dr"
  proof
    assume "sa = sb"
    with equal_scores_draw [of sb] have dr by (simp add: dr_def)
    with that show False by simp
  qed
  have 5: "\<not> is_draw r \<longrightarrow>
           sa \<noteq> sb \<and> (sb < sa \<longrightarrow> winner r = Some a) \<and> (sa < sb \<longrightarrow> winner r = Some b)"
    using ne by (auto simp: r_def)
  from 1 2 3 4 5 show ?thesis by blast
qed

theorem draw_policy_witness:
  "(\<exists>score_a score_b r.
      calculate_battle_score pikachu charizard (parse_types (types pikachu))
        (parse_types (types charizard)) = Inr score_a
    \<and> calculate_battle_score charizard pikachu (parse_types (types charizard))
        (parse_types (types pikachu)) = Inr score_b
    \<and> execute_battle pikachu charizard = Inr r
    \<and> \<not> is_draw r \<and> score_a < score_b \<and> winner r = Some charizard)
   \<and> (\<exists>r. execute_battle near_a near_b = Inr r \<and> is_draw r \<and> winner r = None)"
  using draw_policy [of pikachu charizard] pikachu_vs_charizard near_a_vs_near_b
  by (auto simp: score_total)

text \<open>
  \<^bold>\<open>C5\<close>. For every two records, \<^verbatim>\<open>execute_battle(b, a)\<close> mirrors \<^verbatim>\<open>execute_battle(a, b)\<close>:
  both return, the two returned scores swap places, \<^verbatim>\<open>is_draw\<close> is the same, and the winner
  is the same record (or absent in both).
\<close>

theorem execute_battle_mirror:
  "\<exists>r r'. execute_battle a b = Inr r \<and> execute_battle b a = Inr r'
     \<and> pokemon1_score r' = pokemon2_score r
     \<and> pokemon2_score r' = pokemon1_score r
     \<and> is_draw r' = is_draw r
     \<and> winner r' = winner r"
proof -
  define sa where "sa = spec_side_score (calculate_base_power a)
    (get_type_effectiveness (parse_types (types a)) (parse_types (types b))) (speed a) (speed b)"
  define sb where "sb = spec_side_score (calculate_base_power b)
    (get_type_effectiveness (parse_types (types b)) (parse_types (types a))) (speed b) (speed a)"
  define dr where "dr = (if fdiv (fadd sa sb) 2 > 0
      then \<bar>fsub sa sb\<bar> < fmul (fdiv (fadd sa sb) 2) lit_0_01 else sa = sb)"
  have dr': "(if fdiv (fadd sb sa) 2 > 0
      then \<bar>fsub sb sa\<bar> < fmul (fdiv (fadd sb sa) 2) lit_0_01 else sb = sa) = dr"
    unfolding dr_def fadd_commute [of sb sa] abs_fsub_swap [of sb sa] by auto
  have ne: "sa \<noteq> sb" if "\<not> dr"
  proof
    assume "sa = sb"
    with equal_scores_draw [of sb] have dr by (simp add: dr_def)
    with that show False by simp
  qed
  have 1: "execute_battle a b =
      Inr \<lparr>winner = (if dr then None else if sa > sb then Some a else Some b),
           pokemon1_score = py_round sa 2, pokemon2_score = py_round sb 2, is_draw = dr\<rparr>"
    by (simp add: execute_battle_unfold Let_def dr_def sa_def sb_def)
  have 2: "execute_battle b a =
      Inr \<lparr>winner = (if dr then None else if sb > sa then Some b else Some a),
           pokemon1_score = py_round sb 2, pokemon2_score = py_round sa 2, is_draw = dr\<rparr>"
    unfolding dr' [symmetric]
    by (simp add: execute_battle_unfold Let_def sa_def sb_def)
  have 3: "(if dr then None else if sb > sa then Some b else Some a)
         = (if dr then None else if sa > sb then Some a else Some b)"
    using ne by auto
  show ?thesis unfolding 1 2 3 by simp
qed

text \<open>
  \<^bold>\<open>C6\<close>. Two records with equal values of the six attributes and equal parsed category
  lists, whatever their names and keys, resolve to a draw: \<^verbatim>\<open>is_draw\<close> holds and there is
  no winner.
\<close>

theorem identical_participants_draw:
  assumes "hp a = hp b" "attack a = attack b" "defense a = defense b"
    "special_attack a = special_attack b" "special_defense a = special_defense b"
    "speed a = speed b" "parse_types (types a) = parse_types (types b)"
  shows "\<exists>r. execute_battle a b = Inr r \<and> is_draw r \<and> winner r = None"
proof -
  have "calculate_base_power a = calculate_base_power b"
    using assms by (simp add: calculate_base_power_def)
  with assms equal_scores_draw
    [of "spec_side_score (calculate_base_power b)
          (get_type_effectiveness (parse_types (types b)) (parse_types (types b)))
          (speed b) (speed b)"]
  show ?thesis by (simp add: execute_battle_unfold Let_def)
qed

theorem identical_participants_draw_witness:
  "name pikachu \<noteq> name pikachu2 \<and> hp pikachu = hp pikachu2
   \<and> parse_types (types pikachu) = parse_types (types pikachu2)
   \<and> (\<exists>r. execute_battle pikachu pikachu2 = Inr r \<and> is_draw r \<and> winner r = None)"
  using identical_participants_draw [of pikachu pikachu2]
  by (simp add: pikachu_def pikachu2_def ascii_def)

subsection \<open>Empty category lists\<close>

lemma fold_keep: "fold (\<lambda>x (acc::rat). acc) xs acc0 = acc0"
  by (induction xs) simp_all

lemma effectiveness_no_defender: "get_type_effectiveness ats [] = 1"
  by (simp add: get_type_effectiveness_def Let_def fold_keep)

lemma effectiveness_no_attacker: "get_type_effectiveness [] dts = 1"
  by (simp add: get_type_effectiveness_def)

lemma str_split_pieces: "t \<in> set (str_split sep s) \<Longrightarrow> set t \<subseteq> set s - {sep}"
proof (induction s arbitrary: t)
  case Nil
  then show ?case by simp
next
  case (Cons c cs)
  show ?case
  proof (cases "c = sep")
    case True
    with Cons show ?thesis by auto
  next
    case False
    obtain x xs where sp: "str_split sep cs = x # xs"
      by (cases "str_split sep cs") (cases cs; simp split: if_splits list.splits)+
    with Cons.prems False have "t = c # x \<or> t \<in> set xs" by simp
    then show ?thesis
    proof
      assume "t = c # x"
      moreover have "set x \<subseteq> set cs - {sep}" using Cons.IH [of x] sp by simp
      ultimately show ?thesis using False by auto
    next
      assume "t \<in> set xs"
      then have "set t \<subseteq> set cs - {sep}" using Cons.IH [of t] sp by simp
      then show ?thesis by auto
    qed
  qed
qed

lemma strip_blank:
  assumes "\<forall>c \<in> set t. is_space c"
  shows "strip t = []"
  using assms by (auto simp: strip_def dest: set_dropWhileD)

lemma parse_types_blank:
  assumes "\<forall>c \<in> set s. c = 44 \<or> is_space c"
  shows "parse_types s = []"
proof -
  have "strip t = []" if "t \<in> set (str_split 44 s)" for t
  proof (rule strip_blank)
    from str_split_pieces [OF that] assms show "\<forall>c \<in> set t. is_space c" by auto
  qed
  then show ?thesis by (simp add: parse_types_def)
qed

lemma blank_columns:
  "parse_types (ascii '' , ,, '') = []" "parse_types (ascii '''') = []"
  "parse_types [0xA0, 44, 0x3000] = []"
  by code_simp+

text \<open>
  \<^bold>\<open>C10\<close>. \<^verbatim>\<open>get_type_effectiveness\<close> is total on empty sequences: if the attacker's or the
  defender's list is empty it returns exactly 1. A type column that is empty or holds only
  commas and whitespace parses to the empty list, and with such a participant
  \<^verbatim>\<open>execute_battle\<close> still computes both scores and returns a result.
\<close>

theorem empty_types_neutral:
  "(ats = [] \<or> dts = [] \<longrightarrow> get_type_effectiveness ats dts = 1)
   \<and> ((\<forall>c \<in> set s. c = 44 \<or> is_space c) \<longrightarrow> parse_types s = [])
   \<and> (parse_types (types a) = [] \<or> parse_types (types b) = [] \<longrightarrow>
        (\<exists>score_a score_b r.
            calculate_battle_score a b (parse_types (types a)) (parse_types (types b))
              = Inr score_a
          \<and> calculate_battle_score b a (parse_types (types b)) (parse_types (types a))
              = Inr score_b
          \<and> execute_battle a b = Inr r))"
  using effectiveness_no_defender effectiveness_no_attacker parse_types_blank
  by (auto simp add: execute_battle_unfold score_total Let_def)

theorem empty_types_neutral_witness:
  "get_type_effectiveness [] [ascii ''water''] = 1
   \<and> parse_types (ascii '' , ,, '') = []
   \<and> parse_types (ascii '''') = []
   \<and> parse_types (types typeless) = []
   \<and> (\<exists>r. execute_battle typeless pikachu = Inr r)"
  using empty_types_neutral [of "[]" "[ascii ''water'']" "ascii '' , ,, ''" typeless pikachu]
        blank_columns
  by (simp add: typeless_def)

section \<open>Properties of the cache\<close>

lemma cache_get_expired:
  assumes "entries (cache w) key = Some entry" "expires_at entry < clock e (ticks w)"
  shows "fst (cache_get e key w) = JNull \<and> entries (cache (snd (cache_get e key w))) key = None"
  using assms by (simp add: cache_get_def time_time_def)

lemma cache_set_entry:
  "entries (cache (cache_set e key v w)) key =
     Some \<lparr>data = v,
           expires_at = fadd (clock e (ticks w)) (float_of_int (ttl (cache w)))\<rparr>"
  by (simp add: cache_set_def time_time_def)

lemma cache_set_ticks: "ticks (cache_set e key v w) = Suc (ticks w)"
  by (simp add: cache_set_def time_time_def)

lemma cache_get_absent: "entries (cache w) key = None \<Longrightarrow> cache_get e key w = (JNull, w)"
  by (simp add: cache_get_def)

lemma cache_get_keeps_absent:
  "entries (cache w) key = None \<Longrightarrow> entries (cache (snd (cache_get e k w))) key = None"
  by (simp add: cache_get_def time_time_def split: option.splits)

lemma cache_set_keeps_absent:
  "entries (cache w) key = None \<Longrightarrow> k \<noteq> key \<Longrightarrow> entries (cache (cache_set e k v w)) key = None"
  by (simp add: cache_set_def time_time_def)

lemma cache_clear_absent: "entries (cache (cache_clear w)) key = None"
  by (simp add: cache_clear_def)

lemma cache_step_keeps_absent:
  "entries (cache w) key = None \<Longrightarrow> (\<forall>v. op \<noteq> OpSet key v)
     \<Longrightarrow> entries (cache (cache_step e op w)) key = None"
  by (cases op) (auto simp: cache_get_keeps_absent cache_set_keeps_absent cache_clear_absent)

lemma fold_keeps_absent:
  "entries (cache w) key = None \<Longrightarrow> (\<forall>v. OpSet key v \<notin> set ops)
     \<Longrightarrow> entries (cache (fold (cache_step e) ops w)) key = None"
proof (induction ops arbitrary: w)
  case Nil
  then show ?case by simp
next
  case (Cons op ops)
  from Cons.prems have "entries (cache (cache_step e op w)) key = None"
    by (intro cache_step_keeps_absent) auto
  with Cons show ?case by simp
qed

lemma expiry_of_fixture: "fadd 0 (float_of_int 60) = 60"
  by code_simp

text \<open>
  \<^bold>\<open>C9\<close>. A lookup of a key whose entry has expired (the clock reads later than the entry's
  \<^verbatim>\<open>expires_at\<close>) returns no data and removes the entry, without raising. \<^verbatim>\<open>set\<close> stores the
  entry with \<^verbatim>\<open>expires_at\<close> = its clock reading + \<^verbatim>\<open>ttl\<close>, a float sum, so a lookup that
  follows a \<^verbatim>\<open>set\<close> after more than the time-to-live returns nothing and evicts. After
  \<^verbatim>\<open>clear()\<close>, and after any further calls of the three methods among which there is no
  \<^verbatim>\<open>set\<close> for the key, a lookup of the key returns nothing and leaves the state as it is.
\<close>

theorem cache_expiry_and_clear:
  "(entries (cache w) key = Some entry \<and> expires_at entry < clock e (ticks w) \<longrightarrow>
       fst (cache_get e key w) = JNull
     \<and> entries (cache (snd (cache_get e key w))) key = None)
   \<and> entries (cache (cache_set e key v w)) key =
       Some \<lparr>data = v,
             expires_at = fadd (clock e (ticks w)) (float_of_int (ttl (cache w)))\<rparr>
   \<and> (fadd (clock e (ticks w)) (float_of_int (ttl (cache w))) < clock e (Suc (ticks w)) \<longrightarrow>
       fst (cache_get e key (cache_set e key v w)) = JNull
     \<and> entries (cache (snd (cache_get e key (cache_set e key v w)))) key = None)
   \<and> ((\<forall>x. OpSet key x \<notin> set ops) \<longrightarrow>
       cache_get e key (fold (cache_step e) ops (cache_clear w))
         = (JNull, fold (cache_step e) ops (cache_clear w)))"
proof (intro conjI impI)
  assume "entries (cache w) key = Some entry \<and> expires_at entry < clock e (ticks w)"
  then show "fst (cache_get e key w) = JNull"
    and "entries (cache (snd (cache_get e key w))) key = None"
    using cache_get_expired by blast+
next
  show "entries (cache (cache_set e key v w)) key =
       Some \<lparr>data = v,
             expires_at = fadd (clock e (ticks w)) (float_of_int (ttl (cache w)))\<rparr>"
    by (rule cache_set_entry)
next
  assume late: "fadd (clock e (ticks w)) (float_of_int (ttl (cache w))) < clock e (Suc (ticks w))"
  have "expires_at \<lparr>data = v,
            expires_at = fadd (clock e (ticks w)) (float_of_int (ttl (cache w)))\<rparr>
          < clock e (ticks (cache_set e key v w))"
    using late by (simp add: cache_set_ticks)
  from cache_get_expired [OF cache_set_entry this]
  show "fst (cache_get e key (cache_set e key v w)) = JNull"
    and "entries (cache (snd (cache_get e key (cache_set e key v w)))) key = None"
    by blast+
next
  assume "\<forall>x. OpSet key x \<notin> set ops"
  then have "entries (cache (fold (cache_step e) ops (cache_clear w))) key = None"
    by (intro fold_keeps_absent cache_clear_absent)
  then show "cache_get e key (fold (cache_step e) ops (cache_clear w))
         = (JNull, fold (cache_step e) ops (cache_clear w))"
    by (rule cache_get_absent)
qed

theorem cache_expiry_and_clear_witness:
  "fst (cache_get test_env (ascii ''pikachu'')
          (cache_set test_env (ascii ''pikachu'') mock_pikachu_data empty_world)) = JNull
   \<and> entries (cache (snd (cache_get test_env (ascii ''pikachu'')
          (cache_set test_env (ascii ''pikachu'') mock_pikachu_data empty_world))))
        (ascii ''pikachu'') = None
   \<and> fst (cache_get test_env (ascii ''pikachu'')
          (fold (cache_step test_env) [OpSet (ascii ''charizard'') JNull, OpGet (ascii ''pikachu'')]
             (cache_clear
                (cache_set test_env (ascii ''pikachu'') mock_pikachu_data empty_world))))
       = JNull"
  using cache_expiry_and_clear [where e = test_env and w = empty_world
          and key = "ascii ''pikachu''" and v = mock_pikachu_data and ops = "[]"]
        cache_expiry_and_clear [where e = test_env
          and w = "cache_set test_env (ascii ''pikachu'') mock_pikachu_data empty_world"
          and key = "ascii ''pikachu''"
          and ops = "[OpSet (ascii ''charizard'') JNull, OpGet (ascii ''pikachu'')]"]
  by (simp add: test_env_def empty_world_def expiry_of_fixture ascii_def)

section \<open>Properties of the client\<close>

lemma and_then_raises:
  assumes "and_then r f = Inl x"
    and "r = Inl x \<Longrightarrow> P"
    and "\<And>y. r = Inr y \<Longrightarrow> f y = Inl x \<Longrightarrow> P"
  shows P
  using assms by (cases r) (simp_all add: and_then_def)

lemma py_getitem_raises: "py_getitem j key = Inl x \<Longrightarrow> payload_error x"
  by (cases j) (auto split: option.splits)

lemma py_get_raises: "py_get j key = Inl x \<Longrightarrow> payload_error x"
  by (cases j) auto

lemma py_iter_raises: "py_iter j = Inl x \<Longrightarrow> payload_error x"
  by (cases j) auto

lemma as_str_raises: "as_str j = Inl x \<Longrightarrow> payload_error x"
  by (cases j) auto

lemma validated_raises: "validated r = Inl x \<Longrightarrow> payload_error x"
  by (cases r) (auto simp: validated_def)

lemma map_exn_raises:
  assumes "\<And>y x. f y = Inl x \<Longrightarrow> payload_error x"
  shows "map_exn f ys = Inl x \<Longrightarrow> payload_error x"
proof (induction ys arbitrary: x)
  case Nil
  then show ?case by simp
next
  case (Cons y ys)
  from Cons.prems show ?case
  proof (simp, elim and_then_raises)
    assume "f y = Inl x" then show ?thesis by (rule assms)
  next
    fix z assume "map_exn f ys = Inl x" then show ?thesis by (rule Cons.IH)
  qed simp
qed

lemma stats_item_raises: "stats_item j = Inl x \<Longrightarrow> payload_error x"
  unfolding stats_item_def
  by (elim and_then_raises) (auto dest: py_getitem_raises split: if_splits)

lemma type_item_raises: "type_item j = Inl x \<Longrightarrow> payload_error x"
  unfolding type_item_def
  by (elim and_then_raises) (auto dest: py_getitem_raises)

lemma stats_list_raises: "map_exn stats_item ys = Inl x \<Longrightarrow> payload_error x"
  using stats_item_raises by (rule map_exn_raises)

lemma type_list_raises: "map_exn type_item ys = Inl x \<Longrightarrow> payload_error x"
  using type_item_raises by (rule map_exn_raises)

lemma type_names_raises: "map_exn as_str ys = Inl x \<Longrightarrow> payload_error x"
  using as_str_raises by (rule map_exn_raises)

lemma PokemonCreate_raises:
  "PokemonCreate vs a1 a2 a3 a4 a5 a6 a7 a8 a9 a10 = Inl x \<Longrightarrow> payload_error x"
  unfolding PokemonCreate_def
  by (elim and_then_raises) (auto dest: validated_raises)

lemma parse_pokemon_data_raises: "parse_pokemon_data vs dat = Inl x \<Longrightarrow> payload_error x"
  unfolding parse_pokemon_data_def
  by (elim and_then_raises)
     (auto dest: py_getitem_raises py_get_raises py_iter_raises PokemonCreate_raises
        stats_list_raises type_list_raises type_names_raises split: if_splits)

lemma parse_never_domain:
  "parse_pokemon_data vs dat \<noteq> Inl (PokemonBattleError x)"
  using parse_pokemon_data_raises [of vs dat "PokemonBattleError x"] by auto

lemma get_pokemon_result:
  "fst (get_pokemon e nm w) =
     (if fst (cache_get e (strip (str_lower e nm)) w) \<noteq> JNull
      then parse_pokemon_data (schema e) (fst (cache_get e (strip (str_lower e nm)) w))
      else
          (case http_get e (strip (str_lower e nm)) of
             RequestError msg \<Rightarrow> Inl (PokemonBattleError (PokeAPIError msg))
           | Response status_code body \<Rightarrow>
               if status_code = 404 then Inl (PokemonBattleError (PokemonNotFoundError nm))
               else if \<not> is_success status_code
               then Inl (PokemonBattleError
                          (PokeAPIError (ascii (''HTTP error '' @ show_nat status_code))))
               else (case body of
                       None \<Rightarrow> Inl JSONDecodeError
                     | Some dat \<Rightarrow> parse_pokemon_data (schema e) dat)))"
  by (simp add: get_pokemon_def Let_def split: prod.splits option.splits http_result.splits)

lemma normalize_MissingNo:
  "strip (str_lower test_env (ascii ''MissingNo'')) = ascii ''missingno''"
  by code_simp

lemma normalize_Mew: "strip (str_lower test_env (ascii '' Mew'')) = ascii ''mew''"
  by code_simp

lemma ditto_raises:
  "fst (get_pokemon test_env (ascii ''ditto'') empty_world) = Inl (KeyError (ascii ''stats''))"
  by code_simp

text \<open>
  \<^bold>\<open>C7\<close>, as the code has it. \<^verbatim>\<open>get_pokemon\<close> raises \<^verbatim>\<open>PokemonNotFoundError\<close>, carrying the
  requested name, if and only if it makes the request (the cache has no live entry for the
  normalized name) and the source answers 404. It raises \<^verbatim>\<open>PokeAPIError\<close> if and only if it
  makes the request and the transport fails or the source answers another non-success
  status. Any other error it raises is one that decoding or parsing the payload raised
  (\<^verbatim>\<open>KeyError\<close>, \<^verbatim>\<open>TypeError\<close>, \<^verbatim>\<open>AttributeError\<close>, \<^verbatim>\<open>ValidationError\<close>, \<^verbatim>\<open>JSONDecodeError\<close>), the
  payload being that of a live cache entry or of a success response: the function lets it
  through. Each of the two domain errors has the fixed code of its class and a message
  built from its argument.
\<close>

theorem get_pokemon_errors:
  "(fst (get_pokemon e nm w) = Inl (PokemonBattleError (PokemonNotFoundError x)) \<longleftrightarrow>
      x = nm \<and> fst (cache_get e (strip (str_lower e nm)) w) = JNull
      \<and> (\<exists>body. http_get e (strip (str_lower e nm)) = Response 404 body))
   \<and> ((\<exists>m. fst (get_pokemon e nm w) = Inl (PokemonBattleError (PokeAPIError m))) \<longleftrightarrow>
      fst (cache_get e (strip (str_lower e nm)) w) = JNull
      \<and> ((\<exists>msg. http_get e (strip (str_lower e nm)) = RequestError msg)
         \<or> (\<exists>status_code body. http_get e (strip (str_lower e nm)) = Response status_code body
               \<and> status_code \<noteq> 404 \<and> \<not> is_success status_code)))
   \<and> (fst (get_pokemon e nm w) = Inl err \<longrightarrow>
        err = PokemonBattleError (PokemonNotFoundError nm)
      \<or> (\<exists>m. err = PokemonBattleError (PokeAPIError m))
      \<or> payload_error err
         \<and> (fst (cache_get e (strip (str_lower e nm)) w) \<noteq> JNull
               \<and> parse_pokemon_data (schema e) (fst (cache_get e (strip (str_lower e nm)) w))
                   = Inl err
            \<or> (\<exists>status_code body. fst (cache_get e (strip (str_lower e nm)) w) = JNull
                  \<and> http_get e (strip (str_lower e nm)) = Response status_code body
                  \<and> is_success status_code
                  \<and> (case body of None \<Rightarrow> err = JSONDecodeError
                      | Some dat \<Rightarrow> parse_pokemon_data (schema e) dat = Inl err))))
   \<and> error_code (PokemonNotFoundError x) = ascii ''POKEMON_NOT_FOUND''
   \<and> error_code (PokeAPIError m') = ascii ''POKEAPI_ERROR''
   \<and> message (PokemonNotFoundError x) = ascii ''Pokemon '' @ [39] @ x @ [39] @ ascii '' not found''
   \<and> message (PokeAPIError m') = ascii ''PokeAPI error: '' @ m'"
proof (intro conjI)
  show "fst (get_pokemon e nm w) = Inl (PokemonBattleError (PokemonNotFoundError x)) \<longleftrightarrow>
      x = nm \<and> fst (cache_get e (strip (str_lower e nm)) w) = JNull
      \<and> (\<exists>body. http_get e (strip (str_lower e nm)) = Response 404 body)"
    by (auto simp: get_pokemon_result parse_never_domain
          split: option.splits http_result.splits if_splits)
next
  show "(\<exists>m. fst (get_pokemon e nm w) = Inl (PokemonBattleError (PokeAPIError m))) \<longleftrightarrow>
      fst (cache_get e (strip (str_lower e nm)) w) = JNull
      \<and> ((\<exists>msg. http_get e (strip (str_lower e nm)) = RequestError msg)
         \<or> (\<exists>status_code body. http_get e (strip (str_lower e nm)) = Response status_code body
               \<and> status_code \<noteq> 404 \<and> \<not> is_success status_code))"
    by (auto simp: get_pokemon_result parse_never_domain
          split: option.splits http_result.splits if_splits)
next
  show "fst (get_pokemon e nm w) = Inl err \<longrightarrow>
        err = PokemonBattleError (PokemonNotFoundError nm)
      \<or> (\<exists>m. err = PokemonBattleError (PokeAPIError m))
      \<or> payload_error err
         \<and> (fst (cache_get e (strip (str_lower e nm)) w) \<noteq> JNull
               \<and> parse_pokemon_data (schema e) (fst (cache_get e (strip (str_lower e nm)) w))
                   = Inl err
            \<or> (\<exists>status_code body. fst (cache_get e (strip (str_lower e nm)) w) = JNull
                  \<and> http_get e (strip (str_lower e nm)) = Response status_code body
                  \<and> is_success status_code
                  \<and> (case body of None \<Rightarrow> err = JSONDecodeError
                      | Some dat \<Rightarrow> parse_pokemon_data (schema e) dat = Inl err)))"
    by (auto simp: get_pokemon_result dest: parse_pokemon_data_raises
          split: option.splits http_result.splits if_splits)
qed simp_all

theorem get_pokemon_errors_witness:
  "fst (get_pokemon test_env (ascii ''MissingNo'') empty_world)
     = Inl (PokemonBattleError (PokemonNotFoundError (ascii ''MissingNo'')))
   \<and> (\<exists>m. fst (get_pokemon test_env (ascii '' Mew'') empty_world)
            = Inl (PokemonBattleError (PokeAPIError m)))
   \<and> fst (get_pokemon test_env (ascii ''ditto'') empty_world) = Inl (KeyError (ascii ''stats''))
   \<and> payload_error (KeyError (ascii ''stats''))"
proof -
  have miss: "fst (cache_get test_env k empty_world) = JNull" for k
    by (simp add: cache_get_def empty_world_def)
  have r1: "http_get test_env (ascii ''missingno'') = Response 404 None"
    and r2: "http_get test_env (ascii ''mew'') = Response 503 None"
    by code_simp+
  from get_pokemon_errors [of test_env "ascii ''MissingNo''" empty_world "ascii ''MissingNo''"]
    miss r1
  have "fst (get_pokemon test_env (ascii ''MissingNo'') empty_world)
     = Inl (PokemonBattleError (PokemonNotFoundError (ascii ''MissingNo'')))"
    by (simp add: normalize_MissingNo)
  moreover
  from get_pokemon_errors [of test_env "ascii '' Mew''" empty_world] miss r2
  have "\<exists>m. fst (get_pokemon test_env (ascii '' Mew'') empty_world)
            = Inl (PokemonBattleError (PokeAPIError m))"
    by (simp add: normalize_Mew is_success_def)
  moreover
  from get_pokemon_errors [of test_env "ascii ''ditto''" empty_world _
      "KeyError (ascii ''stats'')"] ditto_raises
  have "payload_error (KeyError (ascii ''stats''))" by simp
  ultimately show ?thesis using ditto_raises by simp
qed

text \<open>The claim's "raises no other error kind" fails: a success response whose payload is
  the empty object makes the parse raise \<^verbatim>\<open>KeyError('stats')\<close>, which passes through.\<close>

theorem get_pokemon_raises_key_error:
  "http_get test_env (ascii ''ditto'') = Response 200 (Some (JObj []))
   \<and> is_success 200
   \<and> fst (get_pokemon test_env (ascii ''ditto'') empty_world) = Inl (KeyError (ascii ''stats''))"
  by code_simp

section \<open>Properties of the services\<close>

lemma get_pokemon_never_same:
  "fst (get_pokemon e nm w) \<noteq> Inl (PokemonBattleError (SamePokemonError x))"
  by (auto simp: get_pokemon_result dest: parse_pokemon_data_raises
        split: option.splits http_result.splits if_splits)

lemma create_pokemon_never_same:
  "fst (create_pokemon dat w) \<noteq> Inl (PokemonBattleError (SamePokemonError x))"
  by (simp add: create_pokemon_def Let_def)

lemma get_or_fetch_never_same:
  "fst (get_or_fetch_pokemon e nm w) \<noteq> Inl (PokemonBattleError (SamePokemonError x))"
proof -
  have "fst (case get_pokemon e n v of
               (Inl err, w1) \<Rightarrow> (Inl err, w1)
             | (Inr pokemon_data, w1) \<Rightarrow> create_pokemon pokemon_data w1)
          \<noteq> Inl (PokemonBattleError (SamePokemonError x))" for n v
    using get_pokemon_never_same [of e n v x] create_pokemon_never_same
    by (cases "get_pokemon e n v") (auto split: sum.splits)
  moreover have "scalar_one_or_none rows \<noteq> Inl (PokemonBattleError (SamePokemonError x))"
    for rows :: "pokemon list"
    by (cases rows rule: scalar_one_or_none.cases) simp_all
  ultimately show ?thesis
    by (auto simp: get_or_fetch_pokemon_def Let_def split: sum.splits option.splits)
qed

text \<open>The log of effects only grows, and a lookup leaves its query in it.\<close>

lemma cache_get_effects: "effects (snd (cache_get e key w)) = effects w"
  by (simp add: cache_get_def time_time_def split: option.splits)

lemma cache_set_effects: "effects (cache_set e key v w) = effects w"
  by (simp add: cache_set_def time_time_def)

lemma get_pokemon_effects: "\<exists>rest. effects (snd (get_pokemon e nm w)) = effects w @ rest"
proof -
  obtain c w0 where g: "cache_get e (strip (str_lower e nm)) w = (c, w0)"
    by (cases "cache_get e (strip (str_lower e nm)) w")
  with cache_get_effects [of e "strip (str_lower e nm)" w]
  have "effects w0 = effects w" by simp
  with g show ?thesis
    by (simp add: get_pokemon_def Let_def record_effect_def cache_set_effects
          split: http_result.splits option.splits)
qed

lemma create_pokemon_effects:
  "effects (snd (create_pokemon dat w)) = effects w @ [InsertPokemon]"
  by (simp add: create_pokemon_def Let_def record_effect_def)

lemma get_or_fetch_effects:
  "\<exists>rest. effects (snd (get_or_fetch_pokemon e nm w))
            = effects w @ SelectPokemon (strip (str_lower e nm)) # rest"
proof -
  let ?n = "strip (str_lower e nm)"
  let ?w = "record_effect (SelectPokemon ?n) w"
  have start: "effects ?w = effects w @ [SelectPokemon ?n]"
    by (simp add: record_effect_def)
  obtain r w1 where g: "get_pokemon e ?n ?w = (r, w1)"
    by (cases "get_pokemon e ?n ?w")
  from get_pokemon_effects [of e ?n ?w] g start
  obtain rest where w1: "effects w1 = effects w @ SelectPokemon ?n # rest"
    by auto
  have fetch: "\<exists>rest. effects (snd (case get_pokemon e ?n ?w of
               (Inl err, w1) \<Rightarrow> (Inl err, w1)
             | (Inr pokemon_data, w1) \<Rightarrow> create_pokemon pokemon_data w1))
          = effects w @ SelectPokemon ?n # rest"
    using g w1 by (cases r) (simp_all add: create_pokemon_effects)
  show ?thesis
    using start fetch
    by (simp add: get_or_fetch_pokemon_def Let_def split: sum.splits option.splits)
qed

lemma service_effects:
  assumes "strip (str_lower e n1) \<noteq> strip (str_lower e n2)"
  shows "\<exists>rest. effects (snd (BattleService_execute_battle e n1 n2 w))
           = effects w @ SelectPokemon (strip (str_lower e (strip (str_lower e n1)))) # rest"
proof -
  let ?a = "strip (str_lower e n1)" and ?b = "strip (str_lower e n2)"
  obtain r1 w1 where g1: "get_or_fetch_pokemon e ?a w = (r1, w1)"
    by (cases "get_or_fetch_pokemon e ?a w")
  obtain r2 w2 where g2: "get_or_fetch_pokemon e ?b w1 = (r2, w2)"
    by (cases "get_or_fetch_pokemon e ?b w1")
  from get_or_fetch_effects [of e ?a w] g1
  obtain rest1 where e1: "effects w1 = effects w @ SelectPokemon (strip (str_lower e ?a)) # rest1"
    by auto
  from get_or_fetch_effects [of e ?b w1] g2
  obtain rest2 where "effects w2 = effects w1 @ SelectPokemon (strip (str_lower e ?b)) # rest2"
    by auto
  with e1 have e2: "\<exists>rest. effects w2 = effects w @ SelectPokemon (strip (str_lower e ?a)) # rest"
    by simp
  show ?thesis
    using assms g1 g2 e1 e2
    by (auto simp: BattleService_execute_battle_def Let_def record_effect_def
          split: sum.splits)
qed

lemma service_run:
  assumes "strip (str_lower e n1) \<noteq> strip (str_lower e n2)"
    and "get_or_fetch_pokemon e (strip (str_lower e n1)) w = (Inr p1, w1)"
    and "get_or_fetch_pokemon e (strip (str_lower e n2)) w1 = (Inr p2, w2)"
    and "execute_battle p1 p2 = Inr r"
  shows "BattleService_execute_battle e n1 n2 w =
     (Inr \<lparr>battle_id = battle_seq w2 + 1, pokemon1_id = pk_id p1, pokemon2_id = pk_id p2,
           winner_id = (case winner r of Some p \<Rightarrow> Some (pk_id p) | None \<Rightarrow> None),
           pokemon1_score_b = pokemon1_score r, pokemon2_score_b = pokemon2_score r,
           pokemon1_b = Some p1, pokemon2_b = Some p2, winner_b = winner r\<rparr>,
      w2\<lparr>effects := effects w2 @ [InsertBattle],
         db_battles := db_battles w2 @
           [\<lparr>battle_id = battle_seq w2 + 1, pokemon1_id = pk_id p1, pokemon2_id = pk_id p2,
             winner_id = (case winner r of Some p \<Rightarrow> Some (pk_id p) | None \<Rightarrow> None),
             pokemon1_score_b = pokemon1_score r, pokemon2_score_b = pokemon2_score r,
             pokemon1_b = Some p1, pokemon2_b = Some p2, winner_b = winner r\<rparr>],
         battle_seq := battle_seq w2 + 1\<rparr>)"
  using assms by (simp add: BattleService_execute_battle_def Let_def record_effect_def)

lemma normalize_Pikachu: "strip (str_lower test_env (ascii ''Pikachu'')) = ascii ''pikachu''"
  by code_simp

lemma normalize_pikachu: "strip (str_lower test_env (ascii ''pikachu'')) = ascii ''pikachu''"
  by code_simp

lemma normalize_pikachu_nbsp:
  "strip (str_lower test_env (ascii ''pikachu'' @ [0xA0])) = ascii ''pikachu''"
  by code_simp

lemma normalize_Charizard:
  "strip (str_lower test_env (ascii ''Charizard'')) = ascii ''charizard''"
  by code_simp

lemma normalize_charizard:
  "strip (str_lower test_env (ascii ''charizard'')) = ascii ''charizard''"
  by code_simp

lemma normalize_E_acute:
  "strip (str_lower test_env [0xC9]) = [0xE9]"
  "strip (str_lower test_env [0xE9, 0x3000]) = [0xE9]"
  by code_simp+

lemma names_differ: "ascii ''pikachu'' \<noteq> ascii ''charizard''"
  by code_simp

lemma stocked_lookup_pikachu:
  "get_or_fetch_pokemon test_env (ascii ''pikachu'') stocked_world =
     (Inr pikachu, stocked_world\<lparr>effects := [SelectPokemon (ascii ''pikachu'')]\<rparr>)"
proof -
  have "filter (\<lambda>p. name p = ascii ''pikachu'') [pikachu, charizard] = [pikachu]"
    by code_simp
  then show ?thesis
    by (simp add: get_or_fetch_pokemon_def Let_def normalize_pikachu record_effect_def
          stocked_world_def empty_world_def)
qed

lemma stocked_lookup_charizard:
  "get_or_fetch_pokemon test_env (ascii ''charizard'')
       (stocked_world\<lparr>effects := [SelectPokemon (ascii ''pikachu'')]\<rparr>) =
     (Inr charizard,
      stocked_world\<lparr>effects := [SelectPokemon (ascii ''pikachu''),
                                SelectPokemon (ascii ''charizard'')]\<rparr>)"
proof -
  have "filter (\<lambda>p. name p = ascii ''charizard'') [pikachu, charizard] = [charizard]"
    by code_simp
  then show ?thesis
    by (simp add: get_or_fetch_pokemon_def Let_def normalize_charizard record_effect_def
          stocked_world_def empty_world_def)
qed

lemma stocked_run:
  "BattleService_execute_battle test_env (ascii ''Pikachu'') (ascii ''Charizard'') stocked_world =
     (Inr \<lparr>battle_id = 1, pokemon1_id = 1, pokemon2_id = 2, winner_id = Some 2,
           pokemon1_score_b = 2308094809027379 / 35184372088832,
           pokemon2_score_b = 607985949695017 / 8796093022208,
           pokemon1_b = Some pikachu, pokemon2_b = Some charizard,
           winner_b = Some charizard\<rparr>,
      stocked_world
        \<lparr>effects := [SelectPokemon (ascii ''pikachu''), SelectPokemon (ascii ''charizard''),
                     InsertBattle],
         db_battles :=
           [\<lparr>battle_id = 1, pokemon1_id = 1, pokemon2_id = 2, winner_id = Some 2,
             pokemon1_score_b = 2308094809027379 / 35184372088832,
             pokemon2_score_b = 607985949695017 / 8796093022208,
             pokemon1_b = Some pikachu, pokemon2_b = Some charizard,
             winner_b = Some charizard\<rparr>],
         battle_seq := 1\<rparr>)"
proof -
  have ne: "strip (str_lower test_env (ascii ''Pikachu''))
              \<noteq> strip (str_lower test_env (ascii ''Charizard''))"
    by (simp add: normalize_Pikachu normalize_Charizard names_differ)
  have ids: "pk_id pikachu = 1" "pk_id charizard = 2"
    by (simp_all add: pikachu_def charizard_def)
  have tables: "battle_seq stocked_world = 0" "db_battles stocked_world = []"
    by (simp_all add: stocked_world_def empty_world_def)
  have g1: "get_or_fetch_pokemon test_env (strip (str_lower test_env (ascii ''Pikachu'')))
               stocked_world =
             (Inr pikachu, stocked_world\<lparr>effects := [SelectPokemon (ascii ''pikachu'')]\<rparr>)"
    by (simp only: normalize_Pikachu stocked_lookup_pikachu)
  have g2: "get_or_fetch_pokemon test_env (strip (str_lower test_env (ascii ''Charizard'')))
               (stocked_world\<lparr>effects := [SelectPokemon (ascii ''pikachu'')]\<rparr>) =
             (Inr charizard,
              stocked_world\<lparr>effects := [SelectPokemon (ascii ''pikachu''),
                                        SelectPokemon (ascii ''charizard'')]\<rparr>)"
    by (simp only: normalize_Charizard stocked_lookup_charizard)
  from service_run [OF ne g1 g2 pikachu_vs_charizard]
  show ?thesis
    by (simp add: ids tables)
qed

text \<open>
  \<^bold>\<open>C8\<close>. With two names that are equal after normalization (lower-cased, then trimmed,
  both as Python does them on Unicode strings), \<^verbatim>\<open>BattleService.execute_battle\<close> raises
  \<^verbatim>\<open>SamePokemonError\<close> with the normalized name and returns the state it was given: no table,
  no cache entry and no clock reading has changed, and the log of effects is the one it
  was given, so that no query of the store and no request to the external source was made,
  whatever they would answer. With two names that differ after normalization it never
  raises \<^verbatim>\<open>SamePokemonError\<close>, and the first thing it does is the query of the store for the
  first name, which the log of effects records.
\<close>

theorem same_pokemon_rejected_first:
  "(strip (str_lower e n1) = strip (str_lower e n2) \<longrightarrow>
      BattleService_execute_battle e n1 n2 w
        = (Inl (PokemonBattleError (SamePokemonError (strip (str_lower e n1)))), w)
      \<and> effects (snd (BattleService_execute_battle e n1 n2 w)) = effects w)
   \<and> (strip (str_lower e n1) \<noteq> strip (str_lower e n2) \<longrightarrow>
      fst (BattleService_execute_battle e n1 n2 w)
        \<noteq> Inl (PokemonBattleError (SamePokemonError x))
      \<and> (\<exists>rest. effects (snd (BattleService_execute_battle e n1 n2 w))
            = effects w @ SelectPokemon (strip (str_lower e (strip (str_lower e n1)))) # rest))"
proof (intro conjI impI)
  assume "strip (str_lower e n1) = strip (str_lower e n2)"
  then show "BattleService_execute_battle e n1 n2 w
        = (Inl (PokemonBattleError (SamePokemonError (strip (str_lower e n1)))), w)"
    and "effects (snd (BattleService_execute_battle e n1 n2 w)) = effects w"
    by (simp_all add: BattleService_execute_battle_def)
next
  assume ne: "strip (str_lower e n1) \<noteq> strip (str_lower e n2)"
  obtain r1 w1 where g1: "get_or_fetch_pokemon e (strip (str_lower e n1)) w = (r1, w1)"
    by (cases "get_or_fetch_pokemon e (strip (str_lower e n1)) w")
  obtain r2 w2 where g2: "get_or_fetch_pokemon e (strip (str_lower e n2)) w1 = (r2, w2)"
    by (cases "get_or_fetch_pokemon e (strip (str_lower e n2)) w1")
  from g1 get_or_fetch_never_same [of e "strip (str_lower e n1)" w x]
  have r1: "r1 \<noteq> Inl (PokemonBattleError (SamePokemonError x))" by simp
  from g2 get_or_fetch_never_same [of e "strip (str_lower e n2)" w1 x]
  have r2: "r2 \<noteq> Inl (PokemonBattleError (SamePokemonError x))" by simp
  show "fst (BattleService_execute_battle e n1 n2 w)
        \<noteq> Inl (PokemonBattleError (SamePokemonError x))"
    using ne g1 g2 r1 r2 execute_battle_returns
    by (auto simp: BattleService_execute_battle_def Let_def execute_battle_unfold
          split: sum.splits)
  show "\<exists>rest. effects (snd (BattleService_execute_battle e n1 n2 w))
            = effects w @ SelectPokemon (strip (str_lower e (strip (str_lower e n1)))) # rest"
    using ne by (rule service_effects)
qed

theorem same_pokemon_rejected_first_witness:
  "BattleService_execute_battle test_env (ascii ''Pikachu'') (ascii ''pikachu'' @ [0xA0])
       stocked_world
     = (Inl (PokemonBattleError (SamePokemonError (ascii ''pikachu''))), stocked_world)
   \<and> BattleService_execute_battle test_env [0xC9] [0xE9, 0x3000] stocked_world
     = (Inl (PokemonBattleError (SamePokemonError [0xE9])), stocked_world)
   \<and> effects (snd (BattleService_execute_battle test_env [0xC9] [0xE9, 0x3000] stocked_world))
     = []
   \<and> fst (BattleService_execute_battle test_env (ascii ''Pikachu'') (ascii ''Charizard'')
            stocked_world)
       \<noteq> Inl (PokemonBattleError (SamePokemonError (ascii ''pikachu'')))
   \<and> (\<exists>rest. effects (snd (BattleService_execute_battle test_env (ascii ''Pikachu'')
                 (ascii ''Charizard'') stocked_world))
               = SelectPokemon (ascii ''pikachu'') # rest)"
  using same_pokemon_rejected_first
          [of test_env "ascii ''Pikachu''" "ascii ''pikachu'' @ [0xA0]" stocked_world]
        same_pokemon_rejected_first
          [of test_env "[0xC9]" "[0xE9, 0x3000]" stocked_world]
        same_pokemon_rejected_first
          [of test_env "ascii ''Pikachu''" "ascii ''Charizard''" stocked_world
              "ascii ''pikachu''"]
  by (simp add: normalize_Pikachu normalize_pikachu normalize_pikachu_nbsp normalize_Charizard
        normalize_E_acute names_differ stocked_world_def empty_world_def)

lemma service_success:
  assumes "fst (BattleService_execute_battle e n1 n2 w) = Inr bt"
  shows "\<exists>pokemon1 pokemon2 r.
           execute_battle pokemon1 pokemon2 = Inr r
         \<and> pokemon1_b bt = Some pokemon1 \<and> pokemon2_b bt = Some pokemon2
         \<and> pokemon1_id bt = pk_id pokemon1 \<and> pokemon2_id bt = pk_id pokemon2
         \<and> winner_b bt = winner r
         \<and> winner_id bt = map_option pk_id (winner r)
         \<and> last (db_battles (snd (BattleService_execute_battle e n1 n2 w))) = bt"
proof -
  obtain r1 w1 where g1: "get_or_fetch_pokemon e (strip (str_lower e n1)) w = (r1, w1)"
    by (cases "get_or_fetch_pokemon e (strip (str_lower e n1)) w")
  obtain r2 w2 where g2: "get_or_fetch_pokemon e (strip (str_lower e n2)) w1 = (r2, w2)"
    by (cases "get_or_fetch_pokemon e (strip (str_lower e n2)) w1")
  from assms have ne: "strip (str_lower e n1) \<noteq> strip (str_lower e n2)"
    by (auto simp: BattleService_execute_battle_def Let_def)
  from assms g1 ne obtain p1 where p1: "r1 = Inr p1"
    by (cases r1) (auto simp: BattleService_execute_battle_def Let_def)
  from assms g1 g2 ne p1 obtain p2 where p2: "r2 = Inr p2"
    by (cases r2) (auto simp: BattleService_execute_battle_def Let_def)
  obtain r where r: "execute_battle p1 p2 = Inr r"
    using execute_battle_returns by blast
  note run = service_run [OF ne g1 [unfolded p1] g2 [unfolded p2] r]
  with assms have bt: "bt = \<lparr>battle_id = battle_seq w2 + 1, pokemon1_id = pk_id p1,
           pokemon2_id = pk_id p2,
           winner_id = (case winner r of Some p \<Rightarrow> Some (pk_id p) | None \<Rightarrow> None),
           pokemon1_score_b = pokemon1_score r, pokemon2_score_b = pokemon2_score r,
           pokemon1_b = Some p1, pokemon2_b = Some p2, winner_b = winner r\<rparr>"
    by simp
  have "(case winner r of Some p \<Rightarrow> Some (pk_id p) | None \<Rightarrow> None) = map_option pk_id (winner r)"
    by (cases "winner r") simp_all
  with r bt run show ?thesis
    by (intro exI [of _ p1] exI [of _ p2] exI [of _ r]) simp
qed

text \<open>
  \<^bold>\<open>C4\<close>. For any two records \<^verbatim>\<open>execute_battle\<close> returns a result whose winner is absent
  exactly when \<^verbatim>\<open>is_draw\<close> holds, and whose winner, when set, is one of the two inputs. Every
  battle row that \<^verbatim>\<open>BattleService.execute_battle\<close> returns is the last row of the battle
  table and comes from the result for its two participants: its \<^verbatim>\<open>winner_id\<close> (and its
  \<^verbatim>\<open>winner\<close> relationship) is unset exactly when that result is a draw, and a
  \<^verbatim>\<open>winner_id\<close> that is set is the key of one of the two participants.
\<close>

theorem outcome_invariant:
  "(\<exists>r. execute_battle a b = Inr r
       \<and> (winner r = None \<longleftrightarrow> is_draw r)
       \<and> (winner r = None \<or> winner r = Some a \<or> winner r = Some b))
   \<and> (fst (BattleService_execute_battle e n1 n2 w) = Inr bt \<longrightarrow>
       (\<exists>pokemon1 pokemon2 r.
           execute_battle pokemon1 pokemon2 = Inr r
         \<and> pokemon1_b bt = Some pokemon1 \<and> pokemon2_b bt = Some pokemon2
         \<and> (winner_id bt = None \<longleftrightarrow> is_draw r)
         \<and> (winner_b bt = None \<longleftrightarrow> is_draw r)
         \<and> (winner_id bt = None \<or> winner_id bt = Some (pokemon1_id bt)
              \<or> winner_id bt = Some (pokemon2_id bt))
         \<and> last (db_battles (snd (BattleService_execute_battle e n1 n2 w))) = bt))"
proof (intro conjI impI)
  obtain r where r: "execute_battle a b = Inr r" using execute_battle_returns by blast
  with winner_cases [OF r]
  show "\<exists>r. execute_battle a b = Inr r
       \<and> (winner r = None \<longleftrightarrow> is_draw r)
       \<and> (winner r = None \<or> winner r = Some a \<or> winner r = Some b)"
    by auto
next
  assume "fst (BattleService_execute_battle e n1 n2 w) = Inr bt"
  from service_success [OF this] obtain pokemon1 pokemon2 r where
    h: "execute_battle pokemon1 pokemon2 = Inr r"
       "pokemon1_b bt = Some pokemon1" "pokemon2_b bt = Some pokemon2"
       "pokemon1_id bt = pk_id pokemon1" "pokemon2_id bt = pk_id pokemon2"
       "winner_b bt = winner r" "winner_id bt = map_option pk_id (winner r)"
       "last (db_battles (snd (BattleService_execute_battle e n1 n2 w))) = bt"
    by blast
  from winner_cases [OF h(1)] h
  show "\<exists>pokemon1 pokemon2 r.
           execute_battle pokemon1 pokemon2 = Inr r
         \<and> pokemon1_b bt = Some pokemon1 \<and> pokemon2_b bt = Some pokemon2
         \<and> (winner_id bt = None \<longleftrightarrow> is_draw r)
         \<and> (winner_b bt = None \<longleftrightarrow> is_draw r)
         \<and> (winner_id bt = None \<or> winner_id bt = Some (pokemon1_id bt)
              \<or> winner_id bt = Some (pokemon2_id bt))
         \<and> last (db_battles (snd (BattleService_execute_battle e n1 n2 w))) = bt"
    by (intro exI [of _ pokemon1] exI [of _ pokemon2] exI [of _ r]) auto
qed

theorem outcome_invariant_witness:
  "\<exists>bt. fst (BattleService_execute_battle test_env (ascii ''Pikachu'') (ascii ''Charizard'')
              stocked_world) = Inr bt
     \<and> winner_id bt = Some 2 \<and> pokemon2_id bt = 2
     \<and> last (db_battles (snd (BattleService_execute_battle test_env (ascii ''Pikachu'')
          (ascii ''Charizard'') stocked_world))) = bt"
  using outcome_invariant
          [of pikachu charizard test_env "ascii ''Pikachu''" "ascii ''Charizard''" stocked_world]
        stocked_run
  by auto

end
